theory Spec2Isabelle
  imports Main "HOL-Library.Multiset"
begin

section \<open>Python strings and containers\<close>

text \<open>
  A character of the model is a Unicode code point from U+0000 to U+00FF, the range a HOL
  character holds, and a string is the list of its code points, so \<open>length\<close> is Python's
  \<open>len\<close>. On that range \<open>str.lower\<close>, \<open>str.isalnum\<close>, \<open>str.isdigit\<close> and the whitespace of
  \<open>str.split\<close> and \<open>str.strip\<close> are given as Python's Unicode tables have them: the
  capitals of Latin-1 (U+00C0 to U+00DE without the multiplication sign) are lowered like
  the ASCII ones, the letters, ordinal indicators, superscript digits and fractions of
  Latin-1 are alphanumeric, and U+0085 and U+00A0 are whitespace. Text with code points
  above U+00FF cannot be written in this type.
\<close>

definition lower_char :: "char \<Rightarrow> char" where
  "lower_char c =
     (let n = (of_char c :: nat)
      in if (65 \<le> n \<and> n \<le> 90) \<or> (192 \<le> n \<and> n \<le> 214) \<or> (216 \<le> n \<and> n \<le> 222)
         then char_of (n + 32) else c)"

definition lower :: "string \<Rightarrow> string" where
  "lower s = map lower_char s"

definition isdigit :: "char \<Rightarrow> bool" where
  "isdigit c =
     (let n = (of_char c :: nat) in (48 \<le> n \<and> n \<le> 57) \<or> n = 178 \<or> n = 179 \<or> n = 185)"

definition isalnum :: "char \<Rightarrow> bool" where
  "isalnum c =
     (let n = (of_char c :: nat)
      in (48 \<le> n \<and> n \<le> 57) \<or> (65 \<le> n \<and> n \<le> 90) \<or> (97 \<le> n \<and> n \<le> 122) \<or>
         n = 170 \<or> n = 178 \<or> n = 179 \<or> n = 181 \<or> n = 185 \<or> n = 186 \<or>
         (188 \<le> n \<and> n \<le> 190) \<or> (192 \<le> n \<and> n \<le> 214) \<or> (216 \<le> n \<and> n \<le> 246) \<or>
         248 \<le> n)"

definition isspace :: "char \<Rightarrow> bool" where
  "isspace c =
     (let n = (of_char c :: nat)
      in (9 \<le> n \<and> n \<le> 13) \<or> (28 \<le> n \<and> n \<le> 32) \<or> n = 133 \<or> n = 160)"

text \<open>\<open>s.split()\<close>: the maximal runs of non-whitespace characters, in order.\<close>

fun split_acc :: "string \<Rightarrow> string \<Rightarrow> string list" where
  "split_acc cur [] = (if cur = [] then [] else [cur])"
| "split_acc cur (c # cs) =
     (if isspace c then (if cur = [] then split_acc [] cs else cur # split_acc [] cs)
      else split_acc (cur @ [c]) cs)"

definition split :: "string \<Rightarrow> string list" where
  "split s = split_acc [] s"

text \<open>\<open>s.split(sep)\<close> for a one-character separator: never the empty list.\<close>

fun split_on_acc :: "char \<Rightarrow> string \<Rightarrow> string \<Rightarrow> string list" where
  "split_on_acc sep cur [] = [cur]"
| "split_on_acc sep cur (c # cs) =
     (if c = sep then cur # split_on_acc sep [] cs else split_on_acc sep (cur @ [c]) cs)"

definition split_on :: "char \<Rightarrow> string \<Rightarrow> string list" where
  "split_on sep s = split_on_acc sep [] s"

definition strip :: "string \<Rightarrow> string" where
  "strip s = rev (dropWhile isspace (rev (dropWhile isspace s)))"

fun join :: "string \<Rightarrow> string list \<Rightarrow> string" where
  "join sep [] = []"
| "join sep [x] = x"
| "join sep (x # y # ys) = x @ sep @ join sep (y # ys)"

text \<open>\<open>sub in s\<close> on strings.\<close>

fun contains :: "string \<Rightarrow> string \<Rightarrow> bool" where
  "contains sub [] = (sub = [])"
| "contains sub (c # cs) = (take (length sub) (c # cs) = sub \<or> contains sub cs)"

text \<open>\<open>xs[:n]\<close> for a Python integer \<open>n\<close>: a negative bound counts from the end.\<close>

definition slice_to :: "int \<Rightarrow> 'a list \<Rightarrow> 'a list" where
  "slice_to n xs = (if 0 \<le> n then take (nat n) xs else take (length xs - nat (- n)) xs)"

text \<open>\<open>str(n)\<close> for an integer, as an f-string prints it.\<close>

fun str_nat :: "nat \<Rightarrow> string" where
  "str_nat n =
     (if n < 10 then [char_of (48 + n)] else str_nat (n div 10) @ [char_of (48 + n mod 10)])"

definition str_int :: "int \<Rightarrow> string" where
  "str_int i = (if i < 0 then CHR ''-'' # str_nat (nat (- i)) else str_nat (nat i))"

text \<open>
  A Python \<open>set\<close> of strings is kept as a duplicate-free list. Python does not specify the
  iteration order of a set; the order chosen here is one of the possible ones, and no
  theorem below depends on it.
\<close>

definition py_set :: "'a list \<Rightarrow> 'a list" where
  "py_set xs = remdups xs"

definition set_inter :: "'a list \<Rightarrow> 'a list \<Rightarrow> 'a list" where
  "set_inter A B = filter (\<lambda>x. x \<in> set B) A"

definition set_minus :: "'a list \<Rightarrow> 'a list \<Rightarrow> 'a list" where
  "set_minus A B = filter (\<lambda>x. x \<notin> set B) A"

text \<open>\<open>d.get(k, default)\<close> on a dictionary.\<close>

definition dict_get :: "('k \<rightharpoonup> 'v) \<Rightarrow> 'k \<Rightarrow> 'v \<Rightarrow> 'v" where
  "dict_get d k dflt = (case d k of None \<Rightarrow> dflt | Some v \<Rightarrow> v)"

text \<open>Exceptions are values; every one of them is a subclass of \<open>Exception\<close>.\<close>

datatype py_error = RequestError | HTTPError | DecodeError | TypeError | AttributeError

definition bind :: "py_error + 'a \<Rightarrow> ('a \<Rightarrow> py_error + 'b) \<Rightarrow> py_error + 'b" where
  "bind m f = (case m of Inl e \<Rightarrow> Inl e | Inr x \<Rightarrow> f x)"


section \<open>The Paper model (sources/__init__.py)\<close>

text \<open>
  The dataclass \<open>Paper\<close>. Python does not enforce the annotations of a dataclass, so the
  record is polymorphic in what the \<open>str\<close>, \<open>int\<close> and \<open>List[str]\<close> fields hold:
  \<open>paper\<close> is the instance the annotations describe, \<open>paper_dyn\<close> the one holding arbitrary
  Python values, which is what \<open>from_dict\<close> builds from a dictionary. The fields \<open>id\<close> and
  \<open>keywords\<close> carry a prime because HOL and Isabelle reserve the plain names.
\<close>

record ('s, 'i, 'l) Paper =
  id' :: 's
  title :: 's
  authors :: 'l
  abstract :: 's
  url :: 's
  pdf_url :: 's
  published :: 's
  source :: 's
  citations :: 'i
  references :: 'l
  keywords' :: 'l

type_synonym paper = "(string, int, string list) Paper"

datatype pyval = PNone | PStr string | PInt int | PList "pyval list"

type_synonym paper_dyn = "(pyval, pyval, pyval) Paper"

definition dyn :: "paper \<Rightarrow> paper_dyn" where
  "dyn p = \<lparr>
     id' = PStr (id' p),
     title = PStr (title p),
     authors = PList (map PStr (authors p)),
     abstract = PStr (abstract p),
     url = PStr (url p),
     pdf_url = PStr (pdf_url p),
     published = PStr (published p),
     source = PStr (source p),
     citations = PInt (citations p),
     references = PList (map PStr (references p)),
     keywords' = PList (map PStr (keywords' p)) \<rparr>"

definition to_dict :: "paper_dyn \<Rightarrow> (string \<rightharpoonup> pyval)" where
  "to_dict self = [
     ''id'' \<mapsto> id' self,
     ''title'' \<mapsto> title self,
     ''authors'' \<mapsto> authors self,
     ''abstract'' \<mapsto> abstract self,
     ''url'' \<mapsto> url self,
     ''pdf_url'' \<mapsto> pdf_url self,
     ''published'' \<mapsto> published self,
     ''source'' \<mapsto> source self,
     ''citations'' \<mapsto> citations self,
     ''references'' \<mapsto> references self,
     ''keywords'' \<mapsto> keywords' self]"

definition from_dict :: "(string \<rightharpoonup> pyval) \<Rightarrow> paper_dyn" where
  "from_dict data = \<lparr>
     id' = dict_get data ''id'' (PStr ''''),
     title = dict_get data ''title'' (PStr ''''),
     authors = dict_get data ''authors'' (PList []),
     abstract = dict_get data ''abstract'' (PStr ''''),
     url = dict_get data ''url'' (PStr ''''),
     pdf_url = dict_get data ''pdf_url'' (PStr ''''),
     published = dict_get data ''published'' (PStr ''''),
     source = dict_get data ''source'' (PStr ''''),
     citations = dict_get data ''citations'' (PInt 0),
     references = dict_get data ''references'' (PList []),
     keywords' = dict_get data ''keywords'' (PList []) \<rparr>"

record Connection =
  paper_a :: paper
  paper_b :: paper
  strength :: int
  reason :: string


section \<open>The connection engine (crossref.py)\<close>

definition title_common_words :: "string list" where
  "title_common_words =
     [''the'', ''a'', ''an'', ''and'', ''or'', ''of'', ''in'', ''on'', ''to'', ''for'',
      ''with'', ''by'', ''from'', ''as'', ''is'', ''are'', ''was'', ''were'',
      ''study'', ''analysis'', ''research'', ''using'', ''based'']"

text \<open>
  \<open>_calculate_connection\<close>: the running \<open>(strength, reasons)\<close> is threaded through the
  three \<open>if\<close> blocks of the source, one definition per block, in the source's order (the local
  \<open>strength\<close> is written \<open>strength'\<close>, the plain name being the field of a Connection).
\<close>

definition shared_authors :: "paper \<Rightarrow> paper \<Rightarrow> string list" where
  "shared_authors pa pb =
     (let authors_a = py_set (map lower (authors pa));
          authors_b = py_set (map lower (authors pb))
      in set_inter authors_a authors_b)"

definition author_block :: "paper \<Rightarrow> paper \<Rightarrow> int \<times> string list \<Rightarrow> int \<times> string list" where
  "author_block pa pb sr =
     (case sr of (strength', reasons) \<Rightarrow>
        if shared_authors pa pb \<noteq> []
        then (strength' + min (int (length (shared_authors pa pb)) * 3) 7,
              reasons @ [''Shared authors: '' @ join '', '' (take 3 (shared_authors pa pb))])
        else (strength', reasons))"

definition shared_keywords :: "paper \<Rightarrow> paper \<Rightarrow> string list" where
  "shared_keywords pa pb =
     (let keywords_a = py_set (map lower (keywords' pa));
          keywords_b = py_set (map lower (keywords' pb))
      in set_inter keywords_a keywords_b)"

definition keyword_block ::
  "paper \<Rightarrow> paper \<Rightarrow> int \<Rightarrow> int \<times> string list \<Rightarrow> int \<times> string list" where
  "keyword_block pa pb keyword_threshold sr =
     (case sr of (strength', reasons) \<Rightarrow>
        if keyword_threshold \<le> int (length (shared_keywords pa pb))
        then (strength' + min (int (length (shared_keywords pa pb))) 5,
              reasons @ [''Shared keywords: '' @ join '', '' (take 5 (shared_keywords pa pb))])
        else (strength', reasons))"

definition shared_title_words :: "paper \<Rightarrow> paper \<Rightarrow> string list" where
  "shared_title_words pa pb =
     (let title_words_a = set_minus (py_set (split (lower (title pa)))) title_common_words;
          title_words_b = set_minus (py_set (split (lower (title pb)))) title_common_words
      in set_inter title_words_a title_words_b)"

definition title_block :: "paper \<Rightarrow> paper \<Rightarrow> int \<times> string list \<Rightarrow> int \<times> string list" where
  "title_block pa pb sr =
     (case sr of (strength', reasons) \<Rightarrow>
        if 2 \<le> length (shared_title_words pa pb)
        then (strength' + min (int (length (shared_title_words pa pb))) 3,
              reasons @ [''Similar topics: '' @ join '', '' (take 3 (shared_title_words pa pb))])
        else (strength', reasons))"

definition calculate_connection :: "paper \<Rightarrow> paper \<Rightarrow> int \<Rightarrow> int \<times> string" where
  "calculate_connection pa pb keyword_threshold =
     (case title_block pa pb (keyword_block pa pb keyword_threshold (author_block pa pb (0, [])))
      of (strength', reasons) \<Rightarrow>
        if min strength' 10 = 0 then (0, '''') else (min strength' 10, join ''; '' reasons))"

text \<open>
  \<open>papers_by_source\<close> is a \<open>defaultdict(list)\<close>; a dictionary iterates in insertion
  order, so it is an association list whose keys appear in the order of first insertion.
\<close>

fun dd_append :: "(string \<times> paper list) list \<Rightarrow> string \<Rightarrow> paper \<Rightarrow> (string \<times> paper list) list" where
  "dd_append [] k p = [(k, [p])]"
| "dd_append ((k', ps) # rest) k p =
     (if k' = k then (k', ps @ [p]) # rest else (k', ps) # dd_append rest k p)"

definition dd_get :: "(string \<times> paper list) list \<Rightarrow> string \<Rightarrow> paper list" where
  "dd_get d k = (case map_of d k of None \<Rightarrow> [] | Some ps \<Rightarrow> ps)"

definition group_by_source :: "paper list \<Rightarrow> (string \<times> paper list) list" where
  "group_by_source papers = foldl (\<lambda>d p. dd_append d (source p) p) [] papers"

text \<open>The pairs \<open>(sources[i], s)\<close> for \<open>s\<close> in \<open>sources[i+1:]\<close>, in loop order.\<close>

fun source_pairs :: "string list \<Rightarrow> (string \<times> string) list" where
  "source_pairs [] = []"
| "source_pairs (source_a # rest) = map (Pair source_a) rest @ source_pairs rest"

definition compared_pairs :: "paper list \<Rightarrow> (paper \<times> paper) list" where
  "compared_pairs papers =
     (let papers_by_source = group_by_source papers;
          sources = map fst papers_by_source
      in concat (map (\<lambda>(source_a, source_b).
                   concat (map (\<lambda>a. map (Pair a) (dd_get papers_by_source source_b))
                               (dd_get papers_by_source source_a)))
                 (source_pairs sources)))"

definition connect :: "int \<Rightarrow> paper \<times> paper \<Rightarrow> Connection list" where
  "connect keyword_threshold ab =
     (case ab of (a, b) \<Rightarrow>
        (case calculate_connection a b keyword_threshold of (s, r) \<Rightarrow>
           if 0 < s then [\<lparr>paper_a = a, paper_b = b, strength = s, reason = r\<rparr>] else []))"

text \<open>
  \<open>list.sort(key=..., reverse=True)\<close> is stable; so is \<open>sort_key\<close>, used here on the
  negated strength.
\<close>

definition find_connections :: "paper list \<Rightarrow> int \<Rightarrow> Connection list" where
  "find_connections papers keyword_threshold =
     sort_key (\<lambda>c. - strength c) (concat (map (connect keyword_threshold) (compared_pairs papers)))"

text \<open>
  The strength as the design document words it: three signals on sets, summed and capped.
\<close>

definition author_signal :: "paper \<Rightarrow> paper \<Rightarrow> int" where
  "author_signal pa pb =
     min (int (card (lower ` set (authors pa) \<inter> lower ` set (authors pb))) * 3) 7"

definition keyword_signal :: "paper \<Rightarrow> paper \<Rightarrow> int \<Rightarrow> int" where
  "keyword_signal pa pb keyword_threshold =
     (let n = int (card (lower ` set (keywords' pa) \<inter> lower ` set (keywords' pb)))
      in if keyword_threshold \<le> n then min n 5 else 0)"

definition title_words :: "paper \<Rightarrow> string set" where
  "title_words p = set (split (lower (title p))) - set title_common_words"

definition title_signal :: "paper \<Rightarrow> paper \<Rightarrow> int" where
  "title_signal pa pb =
     (let n = int (card (title_words pa \<inter> title_words pb))
      in if 2 \<le> n then min n 3 else 0)"

definition spec_strength :: "paper \<Rightarrow> paper \<Rightarrow> int \<Rightarrow> int" where
  "spec_strength pa pb keyword_threshold =
     min (author_signal pa pb + keyword_signal pa pb keyword_threshold + title_signal pa pb) 10"


section \<open>Keyword extraction (BaseSource._extract_keywords)\<close>

definition common_words :: "string list" where
  "common_words =
     [''the'', ''and'', ''or'', ''a'', ''an'', ''in'', ''on'', ''at'', ''to'', ''for'',
      ''of'', ''with'', ''by'', ''from'', ''as'', ''is'', ''was'', ''are'', ''were'',
      ''be'', ''been'', ''being'', ''have'', ''has'', ''had'', ''do'', ''does'', ''did'',
      ''will'', ''would'', ''could'', ''should'', ''may'', ''might'', ''must'',
      ''this'', ''that'', ''these'', ''those'', ''we'', ''our'', ''us'', ''you'',
      ''they'', ''them'', ''their'', ''it'', ''its'', ''he'', ''she'', ''his'', ''her'',
      ''paper'', ''study'', ''research'', ''method'', ''methods'', ''result'',
      ''results'', ''conclusion'', ''conclusions'', ''using'', ''based'', ''new'',
      ''approach'', ''proposed'', ''analysis'', ''data'', ''show'', ''shown'']"

text \<open>
  The loop appends \<open>clean\<close>, the alphanumeric characters of each word of the lowercased
  text, when it is longer than 3 and no common word; the result is \<open>list(set(keywords))\<close>.
  The helper itself takes no slice of its result.
\<close>

definition extract_keywords :: "string \<Rightarrow> string list" where
  "extract_keywords txt =
     (let words = split (lower txt);
          keywords = filter (\<lambda>clean. 3 < length clean \<and> clean \<notin> set common_words)
                       (map (filter isalnum) words)
      in py_set keywords)"


section \<open>What an adapter reads from its upstream API\<close>

text \<open>
  A field of a JSON object is missing, \<open>null\<close> or a value. Fields that an adapter passes
  on unchecked (\<open>paperId\<close>, \<open>url\<close>, \<open>doi\<close>, \<open>date\<close>, \<open>pubdate\<close>) are taken at the type the
  API documents, a string when present, and are an \<open>option\<close>; fields the code guards
  with \<open>or\<close>, adds to a string or iterates are a \<open>json_field\<close>, whose \<open>Null\<close> raises
  \<open>TypeError\<close> where Python would.
\<close>

datatype 'a json_field = Missing | Null | Val 'a

text \<open>\<open>data.get(key, default)\<close> used where a string is needed next.\<close>

definition get_str :: "string json_field \<Rightarrow> string \<Rightarrow> py_error + string" where
  "get_str f dflt = (case f of Missing \<Rightarrow> Inr dflt | Null \<Rightarrow> Inl TypeError | Val s \<Rightarrow> Inr s)"

text \<open>\<open>data.get(key, default) or default\<close>.\<close>

definition get_or :: "'a json_field \<Rightarrow> 'a \<Rightarrow> 'a" where
  "get_or f dflt = (case f of Missing \<Rightarrow> dflt | Null \<Rightarrow> dflt | Val v \<Rightarrow> v)"

text \<open>\<open>for x in data.get(key, [])\<close>.\<close>

definition get_iter :: "'a list json_field \<Rightarrow> py_error + 'a list" where
  "get_iter f = (case f of Missing \<Rightarrow> Inr [] | Null \<Rightarrow> Inl TypeError | Val xs \<Rightarrow> Inr xs)"

text \<open>
  \<open>name = author.get("name", ""); if name: authors.append(name)\<close> over the author
  objects: a missing, null or empty name is skipped.
\<close>

definition author_names :: "string json_field list \<Rightarrow> string list" where
  "author_names as = filter (\<lambda>name. name \<noteq> []) (map (\<lambda>a. get_or a []) as)"

text \<open>
  An XML child element is absent, present with \<open>text\<close> \<open>None\<close>, or present with text;
  \<open>elem.text.strip() if elem is not None else default\<close> raises on the second.
\<close>

datatype xml_text = Absent | NoText | Text string

definition elem_text_strip :: "xml_text \<Rightarrow> string \<Rightarrow> py_error + string" where
  "elem_text_strip e dflt =
     (case e of Absent \<Rightarrow> Inr dflt | NoText \<Rightarrow> Inl AttributeError | Text s \<Rightarrow> Inr (strip s))"

text \<open>
  An HTTP response that arrived: its status and what \<open>resp.json()\<close> and the lookup of
  the result list give (an exception, or the list).
\<close>

record 'a http_response =
  status_code :: int
  json_data :: "py_error + 'a list"

text \<open>
  \<open>try: ... except Exception: pass\<close> followed by \<open>return papers\<close>: the block ends normally
  or by an exception, with the local \<open>papers\<close> as it stood then; either way the function
  returns it.
\<close>

definition except_pass :: "py_error option \<times> 'a \<Rightarrow> py_error + 'a" where
  "except_pass outcome = (case outcome of (None, v) \<Rightarrow> Inr v | (Some e, v) \<Rightarrow> Inr v)"

text \<open>
  The loop \<open>for item in items: paper = parse(item); if paper: papers.append(paper)\<close>
  inside a \<open>try\<close>: an exception of \<open>parse\<close> ends the loop. A Paper object is always true.
\<close>

fun parse_loop :: "('a \<Rightarrow> py_error + paper) \<Rightarrow> 'a list \<Rightarrow> paper list \<Rightarrow> py_error option \<times> paper list" where
  "parse_loop parse [] papers = (None, papers)"
| "parse_loop parse (item # items) papers =
     (case parse item of
        Inl e \<Rightarrow> (Some e, papers)
      | Inr paper \<Rightarrow> parse_loop parse items (papers @ [paper]))"


section \<open>The arXiv adapter (sources/arxiv.py)\<close>

record arxiv_entry =
  e_title :: xml_text
  e_summary :: xml_text
  e_id :: xml_text
  e_published :: xml_text
  e_authors :: "xml_text list"
  e_categories :: "string option list"

text \<open>
  \<open>e_authors\<close> holds the \<open>atom:name\<close> child of each \<open>atom:author\<close>, \<open>e_categories\<close> the
  \<open>term\<close> attribute of each \<open>atom:category\<close>.
\<close>

fun arxiv_authors :: "xml_text list \<Rightarrow> py_error + string list" where
  "arxiv_authors [] = Inr []"
| "arxiv_authors (name_elem # rest) =
     (case name_elem of
        Absent \<Rightarrow> arxiv_authors rest
      | NoText \<Rightarrow> Inl AttributeError
      | Text s \<Rightarrow> bind (arxiv_authors rest) (\<lambda>names. Inr (strip s # names)))"

definition arxiv_categories :: "string option list \<Rightarrow> string list" where
  "arxiv_categories cats =
     map lower (filter (\<lambda>term. term \<noteq> []) (map (\<lambda>c. case c of None \<Rightarrow> [] | Some t \<Rightarrow> t) cats))"

definition arxiv_id_of :: "string \<Rightarrow> string" where
  "arxiv_id_of url_s =
     (let arxiv_id = (if url_s \<noteq> [] then last (split_on (CHR ''/'') url_s) else [])
      in if CHR ''v'' \<in> set arxiv_id then hd (split_on (CHR ''v'') arxiv_id) else arxiv_id)"

definition arxiv_parse_entry :: "arxiv_entry \<Rightarrow> py_error + paper" where
  "arxiv_parse_entry entry =
     bind (elem_text_strip (e_title entry) ''Unknown'') (\<lambda>title_s.
     bind (elem_text_strip (e_summary entry) []) (\<lambda>abstract_s.
     bind (elem_text_strip (e_id entry) []) (\<lambda>url_s.
     bind (elem_text_strip (e_published entry) []) (\<lambda>published_s.
     bind (arxiv_authors (e_authors entry)) (\<lambda>authors_l.
       (let arxiv_id = arxiv_id_of url_s;
            pdf = (if arxiv_id \<noteq> [] then ''https://arxiv.org/pdf/'' @ arxiv_id @ ''.pdf'' else []);
            cats = arxiv_categories (e_categories entry);
            text_keywords = extract_keywords (title_s @ '' '' @ abstract_s);
            kws = cats @ filter (\<lambda>k. k \<notin> set cats) text_keywords
        in Inr \<lparr> id' = arxiv_id, title = title_s, authors = authors_l, abstract = abstract_s,
                 url = url_s, pdf_url = pdf, published = published_s, source = ''arxiv'',
                 citations = 0, references = [], keywords' = take 20 kws \<rparr>))))))"

text \<open>
  The upstream of \<open>search\<close>: from \<open>search_query\<close> and \<open>max_results\<close> to an exception of
  \<open>session.get\<close>, \<open>raise_for_status\<close> or \<open>ET.fromstring\<close>, or the \<open>atom:entry\<close> elements.
\<close>

type_synonym arxiv_api = "string \<Rightarrow> int \<Rightarrow> py_error + arxiv_entry list"

definition arxiv_search :: "arxiv_api \<Rightarrow> string \<Rightarrow> int \<Rightarrow> py_error + paper list" where
  "arxiv_search api query limit =
     (let search_query = (if query \<noteq> [] then ''all:'' @ query else ''all'')
      in except_pass
           (case api search_query limit of
              Inl e \<Rightarrow> (Some e, [])
            | Inr entries \<Rightarrow> parse_loop arxiv_parse_entry entries []))"

definition arxiv_fetch_references :: "paper \<Rightarrow> py_error + paper list" where
  "arxiv_fetch_references paper = Inr []"


section \<open>The Semantic Scholar adapter (sources/semantic_scholar.py)\<close>

record s2_item =
  s2_paperId :: "string option"
  s2_title :: "string json_field"
  s2_abstract :: "string json_field"
  s2_url :: "string option"
  s2_openAccessPdf :: "string option json_field"
  s2_year :: "int json_field"
  s2_authors :: "string json_field list json_field"
  s2_citationCount :: "int json_field"

definition s2_parse_paper :: "s2_item \<Rightarrow> py_error + paper" where
  "s2_parse_paper data =
     (let paper_id = (case s2_paperId data of None \<Rightarrow> [] | Some s \<Rightarrow> s);
          abstract_s = get_or (s2_abstract data) [];
          url0 = (case s2_url data of None \<Rightarrow> [] | Some s \<Rightarrow> s);
          url_s = (if url0 = [] \<and> paper_id \<noteq> []
                   then ''https://www.semanticscholar.org/paper/'' @ paper_id else url0);
          pdf = (case get_or (s2_openAccessPdf data) None of None \<Rightarrow> [] | Some u \<Rightarrow> u);
          year = get_or (s2_year data) 0;
          published_s = (if year \<noteq> 0 then str_int year @ ''-01-01'' else [])
      in bind (get_iter (s2_authors data)) (\<lambda>author_objs.
         bind (get_str (s2_title data) ''Unknown'') (\<lambda>title_s.
           Inr \<lparr> id' = paper_id, title = title_s, authors = author_names author_objs,
                 abstract = abstract_s, url = url_s, pdf_url = pdf, published = published_s,
                 source = ''semantic_scholar'', citations = get_or (s2_citationCount data) 0,
                 references = [],
                 keywords' = take 20 (extract_keywords (title_s @ '' '' @ abstract_s)) \<rparr>)))"

type_synonym s2_search_api = "string \<Rightarrow> int \<Rightarrow> py_error + s2_item http_response"

definition s2_search :: "s2_search_api \<Rightarrow> string \<Rightarrow> int \<Rightarrow> py_error + paper list" where
  "s2_search api query limit =
     except_pass
       (case api query limit of
          Inl e \<Rightarrow> (Some e, [])
        | Inr resp \<Rightarrow>
            if status_code resp = 200
            then (case json_data resp of
                    Inl e \<Rightarrow> (Some e, [])
                  | Inr items \<Rightarrow> parse_loop s2_parse_paper items [])
            else if status_code resp = 429 then (None, [])
            else (None, []))"

text \<open>
  \<open>fetch_references\<close>: each item of the reference list holds a \<open>citedPaper\<close> object or
  none (missing, \<open>null\<close> or empty), and only the former is parsed.
\<close>

type_synonym s2_references_api = "string \<Rightarrow> py_error + s2_item option http_response"

fun cited_loop :: "s2_item option list \<Rightarrow> paper list \<Rightarrow> py_error option \<times> paper list" where
  "cited_loop [] papers = (None, papers)"
| "cited_loop (item # items) papers =
     (case item of
        None \<Rightarrow> cited_loop items papers
      | Some cited_paper \<Rightarrow>
          (case s2_parse_paper cited_paper of
             Inl e \<Rightarrow> (Some e, papers)
           | Inr parsed \<Rightarrow> cited_loop items (papers @ [parsed])))"

definition s2_fetch_references :: "s2_references_api \<Rightarrow> paper \<Rightarrow> py_error + paper list" where
  "s2_fetch_references api paper =
     (if id' paper = [] then Inr []
      else except_pass
             (case api (id' paper) of
                Inl e \<Rightarrow> (Some e, [])
              | Inr resp \<Rightarrow>
                  if status_code resp = 200
                  then (case json_data resp of
                          Inl e \<Rightarrow> (Some e, [])
                        | Inr items \<Rightarrow> cited_loop items [])
                  else (None, [])))"


section \<open>The PubMed adapter (sources/pubmed.py)\<close>

record pubmed_doc =
  d_title :: "string json_field"
  d_authors :: "string json_field list json_field"
  d_pubdate :: "string option"
  d_articleids :: "(string option \<times> string option) list json_field"

text \<open>
  \<open>d_articleids\<close> holds \<open>(idtype, value)\<close> of each article id. The loop takes the value of
  the first id whose type is \<open>doi\<close>.
\<close>

fun find_doi :: "(string option \<times> string option) list \<Rightarrow> string" where
  "find_doi [] = []"
| "find_doi ((idtype, v) # rest) =
     (if idtype = Some ''doi'' then (case v of None \<Rightarrow> [] | Some d \<Rightarrow> d) else find_doi rest)"

definition pubmed_published :: "string option \<Rightarrow> string" where
  "pubmed_published pubdate =
     (case pubdate of
        None \<Rightarrow> []
      | Some pd \<Rightarrow>
          (case split pd of
             [] \<Rightarrow> []
           | year # _ \<Rightarrow>
               if year \<noteq> [] \<and> list_all isdigit year \<and> length year = 4
               then year @ ''-01-01'' else []))"

definition pubmed_parse_paper :: "string \<Rightarrow> pubmed_doc \<Rightarrow> string \<Rightarrow> py_error + paper" where
  "pubmed_parse_paper pmid doc abstract_s =
     bind (get_iter (d_authors doc)) (\<lambda>author_objs.
     bind (get_iter (d_articleids doc)) (\<lambda>article_ids.
     bind (get_str (d_title doc) ''Unknown'') (\<lambda>title_s.
       (let doi = find_doi article_ids
        in Inr \<lparr> id' = pmid, title = title_s, authors = author_names author_objs,
                 abstract = abstract_s,
                 url = ''https://pubmed.ncbi.nlm.nih.gov/'' @ pmid @ ''/'',
                 pdf_url = (if doi \<noteq> [] then ''https://doi.org/'' @ doi else []),
                 published = pubmed_published (d_pubdate doc), source = ''pubmed'',
                 citations = 0, references = [],
                 keywords' = take 20 (extract_keywords (title_s @ '' '' @ abstract_s)) \<rparr>))))"

text \<open>
  The three E-utilities requests. \<open>esearch\<close> gives the \<open>idlist\<close>; \<open>esummary\<close> gives the
  \<open>result\<close> object, which maps a PMID to its document when that document is a non-empty
  object; \<open>efetch\<close> gives, for each \<open>PubmedArticle\<close>, its \<open>PMID\<close> element and its
  \<open>AbstractText\<close> element. Each is an exception when the request, its status check or
  the decoding of its body fails.
\<close>

record pubmed_upstream =
  esearch :: "string \<Rightarrow> int \<Rightarrow> py_error + string list"
  esummary :: "string list \<Rightarrow> py_error + (string \<rightharpoonup> pubmed_doc)"
  efetch :: "string list \<Rightarrow> py_error + (xml_text \<times> xml_text) list"

text \<open>
  \<open>_fetch_abstracts\<close> has its own \<open>try\<close>: on an exception the dictionary is returned
  as it stands, which is empty, since only the request and the XML parse can raise. An
  article without a \<open>PMID\<close> element is skipped; one whose \<open>PMID\<close> has no text would be
  stored under the key \<open>None\<close>, which no string looks up, and is skipped here.
\<close>

fun abstracts_loop :: "(xml_text \<times> xml_text) list \<Rightarrow> (string \<rightharpoonup> string) \<Rightarrow> (string \<rightharpoonup> string)" where
  "abstracts_loop [] abstracts = abstracts"
| "abstracts_loop ((pmid_elem, abstract_elem) # rest) abstracts =
     (case (pmid_elem, abstract_elem) of
        (Text pmid, Text t) \<Rightarrow>
          if t \<noteq> [] then abstracts_loop rest (abstracts(pmid \<mapsto> t)) else abstracts_loop rest abstracts
      | _ \<Rightarrow> abstracts_loop rest abstracts)"

definition fetch_abstracts :: "pubmed_upstream \<Rightarrow> string list \<Rightarrow> (string \<rightharpoonup> string)" where
  "fetch_abstracts api pmids =
     (case efetch api pmids of Inl e \<Rightarrow> Map.empty | Inr articles \<Rightarrow> abstracts_loop articles Map.empty)"

fun pubmed_loop ::
  "(string \<rightharpoonup> pubmed_doc) \<Rightarrow> (string \<rightharpoonup> string) \<Rightarrow> string list \<Rightarrow> paper list \<Rightarrow> py_error option \<times> paper list" where
  "pubmed_loop result abstracts [] papers = (None, papers)"
| "pubmed_loop result abstracts (pmid # rest) papers =
     (case result pmid of
        None \<Rightarrow> pubmed_loop result abstracts rest papers
      | Some doc \<Rightarrow>
          (case pubmed_parse_paper pmid doc (dict_get abstracts pmid []) of
             Inl e \<Rightarrow> (Some e, papers)
           | Inr paper \<Rightarrow> pubmed_loop result abstracts rest (papers @ [paper])))"

definition pubmed_search :: "pubmed_upstream \<Rightarrow> string \<Rightarrow> int \<Rightarrow> py_error + paper list" where
  "pubmed_search api query limit =
     except_pass
       (case esearch api query limit of
          Inl e \<Rightarrow> (Some e, [])
        | Inr idlist \<Rightarrow>
            if idlist = [] then (None, [])
            else (case esummary api idlist of
                    Inl e \<Rightarrow> (Some e, [])
                  | Inr result \<Rightarrow> pubmed_loop result (fetch_abstracts api idlist) idlist []))"

definition pubmed_fetch_references :: "paper \<Rightarrow> py_error + paper list" where
  "pubmed_fetch_references paper = Inr []"


section \<open>The bioRxiv adapter (sources/biorxiv.py)\<close>

record biorxiv_item =
  b_title :: "string json_field"
  b_abstract :: "string json_field"
  b_doi :: "string option"
  b_authors :: "string option"
  b_date :: "string option"

text \<open>
  The adapter's surroundings: \<open>details\<close> gives, for a server name, the \<open>collection\<close> of
  the date-range request (or the exception of the request, its status check or the
  decoding), and \<open>reformat_date\<close> is \<open>strptime(date_str, "%Y-%m-%d")\<close> followed by
  \<open>strftime("%Y-%m-%d")\<close>, \<open>None\<close> when \<open>strptime\<close> raises \<open>ValueError\<close>. Both belong to
  libraries and the network, not to the repository, and are parameters.
\<close>

record biorxiv_upstream =
  details :: "string \<Rightarrow> py_error + biorxiv_item list"
  reformat_date :: "string \<Rightarrow> string option"

definition biorxiv_authors :: "string option \<Rightarrow> string list" where
  "biorxiv_authors author_string =
     (case author_string of
        None \<Rightarrow> []
      | Some s \<Rightarrow> if s = [] then []
                  else filter (\<lambda>name. name \<noteq> []) (map strip (split_on (CHR '';'') s)))"

definition biorxiv_published :: "(string \<Rightarrow> string option) \<Rightarrow> string option \<Rightarrow> string" where
  "biorxiv_published reformat date =
     (case date of
        None \<Rightarrow> []
      | Some date_str \<Rightarrow>
          if date_str = [] then []
          else (case reformat date_str of None \<Rightarrow> date_str | Some d \<Rightarrow> d))"

definition biorxiv_parse_paper ::
  "(string \<Rightarrow> string option) \<Rightarrow> biorxiv_item \<Rightarrow> string \<Rightarrow> py_error + paper" where
  "biorxiv_parse_paper reformat data server =
     (let doi = (case b_doi data of None \<Rightarrow> [] | Some d \<Rightarrow> d);
          abstract_s = get_or (b_abstract data) []
      in bind (get_str (b_title data) ''Unknown'') (\<lambda>title_s.
           Inr \<lparr> id' = doi, title = title_s, authors = biorxiv_authors (b_authors data),
                 abstract = abstract_s,
                 url = (if doi \<noteq> [] then ''https://www.'' @ server @ ''.org/content/'' @ doi else []),
                 pdf_url = (if doi \<noteq> []
                            then ''https://www.'' @ server @ ''.org/content/'' @ doi @ ''.full.pdf''
                            else []),
                 published = biorxiv_published reformat (b_date data), source = server,
                 citations = 0, references = [],
                 keywords' = take 20 (extract_keywords (title_s @ '' '' @ abstract_s)) \<rparr>))"

text \<open>
  The loop of \<open>_fetch_from_server\<close>. The query filter reads the title with the default
  \<open>""\<close>, the parser with the default \<open>"Unknown"\<close>. The test \<open>len(papers) >= limit\<close> is
  reached only after an item passed the filter.
\<close>

fun server_loop ::
  "(string \<Rightarrow> string option) \<Rightarrow> string \<Rightarrow> string \<Rightarrow> int \<Rightarrow> biorxiv_item list \<Rightarrow> paper list
     \<Rightarrow> py_error option \<times> paper list" where
  "server_loop reformat server query_lower limit [] papers = (None, papers)"
| "server_loop reformat server query_lower limit (item # rest) papers =
     (case (if query_lower \<noteq> []
            then bind (get_str (b_title item) [])
                   (\<lambda>title_s. Inr (contains query_lower
                                     (lower (title_s @ '' '' @ get_or (b_abstract item) []))))
            else Inr True) of
        Inl e \<Rightarrow> (Some e, papers)
      | Inr False \<Rightarrow> server_loop reformat server query_lower limit rest papers
      | Inr True \<Rightarrow>
          (case biorxiv_parse_paper reformat item server of
             Inl e \<Rightarrow> (Some e, papers)
           | Inr paper \<Rightarrow>
               if limit \<le> int (length (papers @ [paper])) then (None, papers @ [paper])
               else server_loop reformat server query_lower limit rest (papers @ [paper])))"

definition fetch_from_server :: "biorxiv_upstream \<Rightarrow> string \<Rightarrow> string \<Rightarrow> int \<Rightarrow> paper list" where
  "fetch_from_server api server query limit =
     (case except_pass
             (case details api server of
                Inl e \<Rightarrow> (Some e, [])
              | Inr collection \<Rightarrow>
                  server_loop (reformat_date api) server (if query \<noteq> [] then lower query else [])
                    limit collection [])
      of Inl e \<Rightarrow> [] | Inr papers \<Rightarrow> papers)"

text \<open>
  \<open>search\<close>: \<open>_fetch_from_server\<close> catches its own exceptions, so the outer \<open>try\<close> block
  ends normally once the session exists. Creating the session raises only when the
  \<open>requests\<close> library is missing; the adapter then returns the empty list, as it does when
  the request to each server fails, and the model does not tell the two apart. The slice
  \<open>papers[:limit]\<close> stands after the \<open>try\<close>.
\<close>

definition biorxiv_search :: "biorxiv_upstream \<Rightarrow> string \<Rightarrow> int \<Rightarrow> py_error + paper list" where
  "biorxiv_search api query limit =
     bind (except_pass
             (let papers = fetch_from_server api ''biorxiv'' query limit
              in if int (length papers) < limit
                 then (let remaining = limit - int (length papers)
                       in (None, papers @ fetch_from_server api ''medrxiv'' query remaining))
                 else (None, papers)))
       (\<lambda>papers. Inr (slice_to limit papers))"

definition biorxiv_fetch_references :: "paper \<Rightarrow> py_error + paper list" where
  "biorxiv_fetch_references paper = Inr []"


section \<open>The source registry (sources/__init__.py)\<close>

datatype source_class = ArXivSource | SemanticScholarSource | PubMedSource | BioRxivSource

record upstream =
  arxiv_up :: arxiv_api
  s2_search_up :: s2_search_api
  s2_references_up :: s2_references_api
  pubmed_up :: pubmed_upstream
  biorxiv_up :: biorxiv_upstream

definition search :: "source_class \<Rightarrow> upstream \<Rightarrow> string \<Rightarrow> int \<Rightarrow> py_error + paper list" where
  "search cls net query limit =
     (case cls of
        ArXivSource \<Rightarrow> arxiv_search (arxiv_up net) query limit
      | SemanticScholarSource \<Rightarrow> s2_search (s2_search_up net) query limit
      | PubMedSource \<Rightarrow> pubmed_search (pubmed_up net) query limit
      | BioRxivSource \<Rightarrow> biorxiv_search (biorxiv_up net) query limit)"

definition fetch_references :: "source_class \<Rightarrow> upstream \<Rightarrow> paper \<Rightarrow> py_error + paper list" where
  "fetch_references cls net paper =
     (case cls of
        ArXivSource \<Rightarrow> arxiv_fetch_references paper
      | SemanticScholarSource \<Rightarrow> s2_fetch_references (s2_references_up net) paper
      | PubMedSource \<Rightarrow> pubmed_fetch_references paper
      | BioRxivSource \<Rightarrow> biorxiv_fetch_references paper)"

definition register_source ::
  "string \<Rightarrow> source_class \<Rightarrow> (string \<rightharpoonup> source_class) \<Rightarrow> (string \<rightharpoonup> source_class)" where
  "register_source name source_class registry = registry(name \<mapsto> source_class)"

text \<open>The four \<open>register_source\<close> calls at the end of the adapter modules.\<close>

definition SOURCE_REGISTRY :: "string \<rightharpoonup> source_class" where
  "SOURCE_REGISTRY =
     register_source ''biorxiv'' BioRxivSource
       (register_source ''pubmed'' PubMedSource
         (register_source ''semantic_scholar'' SemanticScholarSource
           (register_source ''arxiv'' ArXivSource Map.empty)))"

definition get_source :: "string \<Rightarrow> source_class option" where
  "get_source name = SOURCE_REGISTRY name"


section \<open>Adapter objects as the scanner sees them\<close>

text \<open>
  The scanner calls \<open>get_source(name)\<close> and then \<open>search\<close> or \<open>fetch_references\<close> on the
  object it gets. The network may answer differently at every call, so an adapter object
  is a pair of functions over the state \<open>'w\<close> of the outside world; each returns the
  list or the exception it raises, and the next state. \<open>instance_of\<close> is the object of one
  of the four adapter classes, for a world that is the upstream itself.
\<close>

record 'w source_obj =
  search_of :: "'w \<Rightarrow> string \<Rightarrow> int \<Rightarrow> (py_error + paper list) \<times> 'w"
  fetch_references_of :: "'w \<Rightarrow> paper \<Rightarrow> (py_error + paper list) \<times> 'w"

definition instance_of :: "source_class \<Rightarrow> upstream source_obj" where
  "instance_of cls =
     \<lparr> search_of = (\<lambda>net query limit. (search cls net query limit, net)),
       fetch_references_of = (\<lambda>net paper. (fetch_references cls net paper, net)) \<rparr>"


section \<open>Reference traversal (universal_scanner.fetch_references_recursive)\<close>

definition paper_key :: "paper \<Rightarrow> string \<times> string" where
  "paper_key p = (id' p, source p)"

text \<open>\<open>for ref in refs[:max_per_paper]\<close>, on the state \<open>(seen_ids, new_papers)\<close>.\<close>

fun refs_loop ::
  "paper list \<Rightarrow> (string \<times> string) set \<times> paper list \<Rightarrow> (string \<times> string) set \<times> paper list" where
  "refs_loop [] st = st"
| "refs_loop (ref # refs) (seen_ids, new_papers) =
     (let key = (id' ref, source ref)
      in if key \<notin> seen_ids
         then refs_loop refs (insert key seen_ids, new_papers @ [ref])
         else refs_loop refs (seen_ids, new_papers))"

text \<open>
  \<open>for paper in papers\<close>: an unknown source is skipped, an exception of
  \<open>fetch_references\<close> is caught and leaves \<open>seen_ids\<close> and \<open>new_papers\<close> as they were.
\<close>

fun level_loop ::
  "(string \<Rightarrow> 'w source_obj option) \<Rightarrow> int \<Rightarrow> paper list
     \<Rightarrow> 'w \<times> (string \<times> string) set \<times> paper list \<Rightarrow> 'w \<times> (string \<times> string) set \<times> paper list" where
  "level_loop lookup max_per_paper [] st = st"
| "level_loop lookup max_per_paper (paper # rest) (w, seen_ids, new_papers) =
     (case lookup (source paper) of
        None \<Rightarrow> level_loop lookup max_per_paper rest (w, seen_ids, new_papers)
      | Some src \<Rightarrow>
          (case fetch_references_of src w paper of
             (Inl e, w') \<Rightarrow> level_loop lookup max_per_paper rest (w', seen_ids, new_papers)
           | (Inr refs, w') \<Rightarrow>
               (case refs_loop (slice_to max_per_paper refs) (seen_ids, new_papers) of
                  (seen_ids', new_papers') \<Rightarrow>
                    level_loop lookup max_per_paper rest (w', seen_ids', new_papers'))))"

text \<open>
  \<open>for level in range(depth)\<close>, on the state \<open>(papers, seen_ids, all_papers)\<close>; the
  \<open>break\<close> on an empty level ends it.
\<close>

fun levels ::
  "(string \<Rightarrow> 'w source_obj option) \<Rightarrow> int \<Rightarrow> nat \<Rightarrow> paper list
     \<Rightarrow> 'w \<times> (string \<times> string) set \<times> paper list \<Rightarrow> 'w \<times> paper list" where
  "levels lookup max_per_paper 0 papers (w, seen_ids, all_papers) = (w, all_papers)"
| "levels lookup max_per_paper (Suc n) papers (w, seen_ids, all_papers) =
     (case level_loop lookup max_per_paper papers (w, seen_ids, []) of
        (w', seen_ids', new_papers) \<Rightarrow>
          if new_papers = [] then (w', all_papers)
          else levels lookup max_per_paper n new_papers (w', seen_ids', all_papers @ new_papers))"

definition fetch_references_recursive ::
  "(string \<Rightarrow> 'w source_obj option) \<Rightarrow> 'w \<Rightarrow> paper list \<Rightarrow> int \<Rightarrow> int \<Rightarrow> 'w \<times> paper list" where
  "fetch_references_recursive lookup w papers depth max_per_paper =
     (if depth \<le> 0 then (w, papers)
      else levels lookup max_per_paper (nat depth) papers (w, set (map paper_key papers), papers))"


text \<open>
  The traversal as the design words it. \<open>fetched\<close> is what one level asks for: for every
  paper of the previous level, in order, the first \<open>max_per_paper\<close> references its adapter
  returns, none for an unknown source or a failed lookup. \<open>unseen\<close> keeps of them those
  whose key has not been seen, each key once. \<open>discovered\<close> is the new papers of all levels:
  a level's new papers, then those of the next level started from them, until the depth
  is used up or a level finds nothing new.
\<close>

fun fetched :: "(string \<Rightarrow> 'w source_obj option) \<Rightarrow> int \<Rightarrow> paper list \<Rightarrow> 'w \<Rightarrow> paper list \<times> 'w" where
  "fetched lookup max_per_paper [] w = ([], w)"
| "fetched lookup max_per_paper (paper # rest) w =
     (case lookup (source paper) of
        None \<Rightarrow> fetched lookup max_per_paper rest w
      | Some src \<Rightarrow>
          (case fetch_references_of src w paper of
             (Inl e, w') \<Rightarrow> fetched lookup max_per_paper rest w'
           | (Inr refs, w') \<Rightarrow>
               (case fetched lookup max_per_paper rest w' of
                  (others, w'') \<Rightarrow> (slice_to max_per_paper refs @ others, w''))))"

fun unseen :: "(string \<times> string) set \<Rightarrow> paper list \<Rightarrow> paper list" where
  "unseen seen [] = []"
| "unseen seen (r # rs) =
     (if paper_key r \<in> seen then unseen seen rs
      else r # unseen (insert (paper_key r) seen) rs)"

fun discovered ::
  "(string \<Rightarrow> 'w source_obj option) \<Rightarrow> int \<Rightarrow> nat \<Rightarrow> paper list \<Rightarrow> (string \<times> string) set \<Rightarrow> 'w
     \<Rightarrow> paper list" where
  "discovered lookup max_per_paper 0 previous seen w = []"
| "discovered lookup max_per_paper (Suc n) previous seen w =
     (case fetched lookup max_per_paper previous w of
        (refs, w') \<Rightarrow>
          (let new = unseen seen refs
           in if new = [] then []
              else new @ discovered lookup max_per_paper n new (seen \<union> set (map paper_key new)) w'))"

definition new_papers_of ::
  "(string \<Rightarrow> 'w source_obj option) \<Rightarrow> 'w \<Rightarrow> paper list \<Rightarrow> int \<Rightarrow> int \<Rightarrow> paper list" where
  "new_papers_of lookup w papers depth max_per_paper =
     (if depth \<le> 0 then []
      else discovered lookup max_per_paper (nat depth) papers (set (map paper_key papers)) w)"


section \<open>The cache (cache.py)\<close>

text \<open>
  A timestamp is an integer count of microseconds. The source stores
  \<open>datetime.now().isoformat()\<close> and lets SQLite compare the texts; on the texts
  \<open>isoformat\<close> produces, that order is the order of the instants, which is the order of
  the integers here. The range limits of \<open>datetime\<close> are not modelled.

  A row of \<open>papers\<close> has the columns of a Paper and \<open>fetched_at\<close>; list columns hold the
  list that their JSON text encodes. \<open>save_papers\<close> is the only writer, so no column is
  \<open>NULL\<close>, and the \<open>or\<close> defaults of \<open>_row_to_paper\<close> return what was stored.
\<close>

record paper_row = "(string, int, string list) Paper" +
  fetched_at :: int

record query_row =
  q_id :: nat
  q_query :: string
  q_source :: string
  q_max_results :: int
  q_timestamp :: int
  q_result_count :: int

record cache_db =
  papers_table :: "paper_row list"
  queries_table :: "query_row list"

definition row_of :: "paper \<Rightarrow> int \<Rightarrow> paper_row" where
  "row_of p now =
     \<lparr> id' = id' p, title = title p, authors = authors p, abstract = abstract p, url = url p,
       pdf_url = pdf_url p, published = published p, source = source p,
       citations = citations p, references = references p, keywords' = keywords' p,
       fetched_at = now \<rparr>"

definition row_to_paper :: "paper_row \<Rightarrow> paper" where
  "row_to_paper row =
     \<lparr> id' = id' row, title = title row, authors = authors row, abstract = abstract row,
       url = url row, pdf_url = pdf_url row, published = published row, source = source row,
       citations = citations row, references = references row, keywords' = keywords' row \<rparr>"

text \<open>
  \<open>INSERT OR REPLACE\<close> under the primary key \<open>(id, source)\<close>: a row with the same key is
  deleted and the new row inserted.
\<close>

definition save_paper :: "cache_db \<Rightarrow> paper \<times> int \<Rightarrow> cache_db" where
  "save_paper db pn =
     (case pn of (p, now) \<Rightarrow>
        db\<lparr>papers_table :=
             filter (\<lambda>r. \<not> (id' r = id' p \<and> source r = source p)) (papers_table db) @ [row_of p now]\<rparr>)"

text \<open>\<open>save_papers\<close> reads the clock once for each paper: the list pairs each with its reading.\<close>

definition save_papers :: "cache_db \<Rightarrow> (paper \<times> int) list \<Rightarrow> cache_db" where
  "save_papers db stamped = foldl save_paper db stamped"

definition record_query :: "cache_db \<Rightarrow> int \<Rightarrow> string \<Rightarrow> string \<Rightarrow> int \<Rightarrow> int \<Rightarrow> cache_db" where
  "record_query db now query src max_results result_count =
     db\<lparr>queries_table := queries_table db @
          [\<lparr> q_id = Suc (length (queries_table db)), q_query = query, q_source = src,
             q_max_results = max_results, q_timestamp = now, q_result_count = result_count \<rparr>]\<rparr>"

definition cutoff_of :: "int \<Rightarrow> int \<Rightarrow> int" where
  "cutoff_of now max_age_hours = now - max_age_hours * 3600000000"

text \<open>
  \<open>get_cached\<close>, with the clock reading \<open>now\<close> of its one \<open>datetime.now()\<close>. \<open>ORDER BY
  fetched_at DESC\<close> leaves the order of equal timestamps to SQLite; the stable sort used
  here is one such order.
\<close>

definition get_cached :: "cache_db \<Rightarrow> int \<Rightarrow> string \<Rightarrow> string \<Rightarrow> int \<Rightarrow> paper list option" where
  "get_cached db now query src max_age_hours =
     (let cutoff = cutoff_of now max_age_hours
      in if filter (\<lambda>q. q_query q = query \<and> q_source q = src \<and> cutoff < q_timestamp q)
              (queries_table db) = []
         then None
         else (let rows = sort_key (\<lambda>r. - fetched_at r)
                            (filter (\<lambda>r. source r = src \<and> cutoff < fetched_at r) (papers_table db))
               in if rows = [] then None else Some (map row_to_paper rows)))"


text \<open>
  The two conditions of \<open>get_cached\<close> as predicates on the tables: a row of the query log
  for exactly this query and source inside the freshness window, and the rows of
  \<open>papers\<close> of this source inside the window.
\<close>

definition fresh_row :: "cache_db \<Rightarrow> int \<Rightarrow> string \<Rightarrow> string \<Rightarrow> int \<Rightarrow> bool" where
  "fresh_row db now query src max_age_hours =
     (\<exists>r \<in> set (queries_table db).
        q_query r = query \<and> q_source r = src \<and> cutoff_of now max_age_hours < q_timestamp r)"

definition window_rows :: "cache_db \<Rightarrow> int \<Rightarrow> string \<Rightarrow> int \<Rightarrow> paper_row list" where
  "window_rows db now src max_age_hours =
     filter (\<lambda>r. source r = src \<and> cutoff_of now max_age_hours < fetched_at r) (papers_table db)"


section \<open>The scan (universal_scanner.fetch_from_sources)\<close>

text \<open>
  The state of a scan: the outside world, the cache, the number of clock readings taken
  so far and \<open>all_papers\<close>. The \<open>n\<close>-th reading of \<open>datetime.now()\<close> is \<open>clock n\<close>. \<open>cache_available\<close> is the module flag
  \<open>CACHE_AVAILABLE\<close>, set when the module is imported.
\<close>

record 'w scan =
  world :: 'w
  cache :: cache_db
  ticks :: nat
  all_papers :: "paper list"

definition store_results :: "(nat \<Rightarrow> int) \<Rightarrow> string \<Rightarrow> string \<Rightarrow> int \<Rightarrow> paper list \<Rightarrow> 'w scan \<Rightarrow> 'w scan" where
  "store_results clock query source_name limit papers st =
     (let n = length papers;
          saved = save_papers (cache st) (zip papers (map clock [ticks st ..< ticks st + n]))
      in st\<lparr> cache := record_query saved (clock (ticks st + n)) query source_name limit (int n),
             ticks := ticks st + n + 1 \<rparr>)"

text \<open>
  The \<open>try\<close> block of the loop body: \<open>search\<close>, then the two cache writes, then
  \<open>all_papers.extend\<close>; an exception of \<open>search\<close> is caught and only reported.
\<close>

definition run_search ::
  "(nat \<Rightarrow> int) \<Rightarrow> bool \<Rightarrow> string \<Rightarrow> int \<Rightarrow> bool \<Rightarrow> 'w source_obj \<Rightarrow> string
     \<Rightarrow> 'w scan \<Rightarrow> 'w scan" where
  "run_search clock cache_available query limit use_cache src source_name st =
     (case search_of src (world st) query limit of
        (r, w') \<Rightarrow>
          (let st2 = st\<lparr>world := w'\<rparr>
           in case r of
                Inl e \<Rightarrow> st2
              | Inr papers \<Rightarrow>
                  (let st3 = (if use_cache \<and> cache_available
                              then store_results clock query source_name limit papers st2
                              else st2)
                   in st3\<lparr>all_papers := all_papers st3 @ papers\<rparr>)))"

text \<open>
  The loop body. \<open>if cached:\<close> holds for a non-empty list only; \<open>None\<close> and the empty
  list both fall through to the search.
\<close>

definition fetch_one ::
  "(string \<Rightarrow> 'w source_obj option) \<Rightarrow> (nat \<Rightarrow> int) \<Rightarrow> bool \<Rightarrow> string \<Rightarrow> int \<Rightarrow> bool
     \<Rightarrow> 'w scan \<Rightarrow> string \<Rightarrow> 'w scan" where
  "fetch_one lookup clock cache_available query limit use_cache st source_name =
     (case lookup source_name of
        None \<Rightarrow> st
      | Some src \<Rightarrow>
          (if use_cache \<and> cache_available
           then (case get_cached (cache st) (clock (ticks st)) query source_name 24 of
                   Some (p # ps) \<Rightarrow>
                     st\<lparr>ticks := Suc (ticks st), all_papers := all_papers st @ p # ps\<rparr>
                 | _ \<Rightarrow>
                     run_search clock cache_available query limit use_cache src source_name
                       (st\<lparr>ticks := Suc (ticks st)\<rparr>))
           else run_search clock cache_available query limit use_cache src source_name st))"

definition fetch_from_sources ::
  "(string \<Rightarrow> 'w source_obj option) \<Rightarrow> (nat \<Rightarrow> int) \<Rightarrow> bool \<Rightarrow> 'w scan
     \<Rightarrow> string \<Rightarrow> string list \<Rightarrow> int \<Rightarrow> bool \<Rightarrow> 'w scan" where
  "fetch_from_sources lookup clock cache_available st query sources limit use_cache =
     foldl (fetch_one lookup clock cache_available query limit use_cache) (st\<lparr>all_papers := []\<rparr>) sources"


section \<open>Specification predicates for the adapters\<close>

text \<open>The list a call returned; a call that raised returned nothing.\<close>

definition returned :: "py_error + 'a list \<Rightarrow> 'a list" where
  "returned r = (case r of Inl e \<Rightarrow> [] | Inr xs \<Rightarrow> xs)"

text \<open>
  The papers that are the successful parse of an item the upstream delivered for this
  search, and the searches whose first request fails altogether.
\<close>

definition upstream_parses :: "source_class \<Rightarrow> upstream \<Rightarrow> string \<Rightarrow> int \<Rightarrow> paper set" where
  "upstream_parses cls net query limit =
     (case cls of
        ArXivSource \<Rightarrow>
          {p. \<exists>entries e.
                arxiv_up net (if query \<noteq> [] then ''all:'' @ query else ''all'') limit = Inr entries \<and>
                e \<in> set entries \<and> arxiv_parse_entry e = Inr p}
      | SemanticScholarSource \<Rightarrow>
          {p. \<exists>resp items i.
                s2_search_up net query limit = Inr resp \<and> json_data resp = Inr items \<and>
                i \<in> set items \<and> s2_parse_paper i = Inr p}
      | PubMedSource \<Rightarrow>
          {p. \<exists>idlist result pmid doc abstract_s.
                esearch (pubmed_up net) query limit = Inr idlist \<and>
                esummary (pubmed_up net) idlist = Inr result \<and>
                pmid \<in> set idlist \<and> result pmid = Some doc \<and>
                pubmed_parse_paper pmid doc abstract_s = Inr p}
      | BioRxivSource \<Rightarrow>
          {p. \<exists>server items i.
                details (biorxiv_up net) server = Inr items \<and> i \<in> set items \<and>
                biorxiv_parse_paper (reformat_date (biorxiv_up net)) i server = Inr p})"

definition total_failure :: "source_class \<Rightarrow> upstream \<Rightarrow> string \<Rightarrow> int \<Rightarrow> bool" where
  "total_failure cls net query limit =
     (case cls of
        ArXivSource \<Rightarrow>
          (\<exists>e. arxiv_up net (if query \<noteq> [] then ''all:'' @ query else ''all'') limit = Inl e)
      | SemanticScholarSource \<Rightarrow> (\<exists>e. s2_search_up net query limit = Inl e)
      | PubMedSource \<Rightarrow> (\<exists>e. esearch (pubmed_up net) query limit = Inl e)
      | BioRxivSource \<Rightarrow>
          (\<exists>e. details (biorxiv_up net) ''biorxiv'' = Inl e) \<and>
          (\<exists>e. details (biorxiv_up net) ''medrxiv'' = Inl e))"


text \<open>
  What a loop over the delivered items collects when each item gives a paper, gives
  nothing, or raises: the papers of the items before the first one that raises.
\<close>

fun collected :: "('a \<Rightarrow> py_error + paper option) \<Rightarrow> 'a list \<Rightarrow> paper list" where
  "collected f [] = []"
| "collected f (x # xs) =
     (case f x of
        Inl e \<Rightarrow> []
      | Inr None \<Rightarrow> collected f xs
      | Inr (Some p) \<Rightarrow> p # collected f xs)"

definition parsed :: "('a \<Rightarrow> py_error + paper) \<Rightarrow> 'a \<Rightarrow> py_error + paper option" where
  "parsed parse x = (case parse x of Inl e \<Rightarrow> Inl e | Inr p \<Rightarrow> Inr (Some p))"

text \<open>
  An item of a bioRxiv collection: with a query, an item with a \<open>null\<close> title raises and
  one that does not hold the query gives nothing; every other item is parsed.
\<close>

definition matching_paper ::
  "(string \<Rightarrow> string option) \<Rightarrow> string \<Rightarrow> string \<Rightarrow> biorxiv_item \<Rightarrow> py_error + paper option" where
  "matching_paper reformat server query_lower item =
     (if query_lower = [] then parsed (\<lambda>i. biorxiv_parse_paper reformat i server) item
      else (case b_title item of
              Null \<Rightarrow> Inl TypeError
            | t \<Rightarrow>
                if contains query_lower (lower (get_or t [] @ '' '' @ get_or (b_abstract item) []))
                then parsed (\<lambda>i. biorxiv_parse_paper reformat i server) item
                else Inr None))"

text \<open>What one server contributes: the collected papers, cut at the limit but never below one.\<close>

definition server_papers :: "biorxiv_upstream \<Rightarrow> string \<Rightarrow> string \<Rightarrow> int \<Rightarrow> paper list" where
  "server_papers api server query limit =
     (case details api server of
        Inl e \<Rightarrow> []
      | Inr items \<Rightarrow>
          take (max 1 (nat limit))
            (collected (matching_paper (reformat_date api) server
                          (if query \<noteq> [] then lower query else [])) items))"

text \<open>
  The list \<open>search\<close> is to return, adapter by adapter: the papers parsed from the delivered
  items before the first item that fails; for PubMed the items are the identifiers with a
  summary document; for bioRxiv the two servers in turn, the second for what the first
  left of the limit, and the whole cut at the limit.
\<close>

definition expected_search :: "source_class \<Rightarrow> upstream \<Rightarrow> string \<Rightarrow> int \<Rightarrow> paper list" where
  "expected_search cls net query limit =
     (case cls of
        ArXivSource \<Rightarrow>
          (case arxiv_up net (if query \<noteq> [] then ''all:'' @ query else ''all'') limit of
             Inl e \<Rightarrow> []
           | Inr entries \<Rightarrow> collected (parsed arxiv_parse_entry) entries)
      | SemanticScholarSource \<Rightarrow>
          (case s2_search_up net query limit of
             Inl e \<Rightarrow> []
           | Inr resp \<Rightarrow>
               if status_code resp = 200
               then (case json_data resp of
                       Inl e \<Rightarrow> []
                     | Inr items \<Rightarrow> collected (parsed s2_parse_paper) items)
               else [])
      | PubMedSource \<Rightarrow>
          (case esearch (pubmed_up net) query limit of
             Inl e \<Rightarrow> []
           | Inr idlist \<Rightarrow>
               (case esummary (pubmed_up net) idlist of
                  Inl e \<Rightarrow> []
                | Inr result \<Rightarrow>
                    collected
                      (\<lambda>pmid. case result pmid of
                                None \<Rightarrow> Inr None
                              | Some doc \<Rightarrow>
                                  parsed (pubmed_parse_paper pmid doc)
                                    (dict_get (fetch_abstracts (pubmed_up net) idlist) pmid []))
                      idlist))
      | BioRxivSource \<Rightarrow>
          (let papers = server_papers (biorxiv_up net) ''biorxiv'' query limit
           in slice_to limit
                (if int (length papers) < limit
                 then papers @ server_papers (biorxiv_up net) ''medrxiv'' query
                                 (limit - int (length papers))
                 else papers)))"


section \<open>Sample inputs\<close>

definition demo_p1 :: paper where
  "demo_p1 =
     \<lparr> id' = ''1'', title = ''Plasma Corona'', authors = [''Jo Smith'', ''Jane Doe''],
       abstract = ''On ions'', url = [], pdf_url = [], published = [],
       source = ''arxiv'', citations = 0, references = [],
       keywords' = [''plasma'', ''corona'', ''piezo'', ''ion''] \<rparr>"

definition demo_p2 :: paper where
  "demo_p2 =
     \<lparr> id' = ''2'', title = ''Corona in plasma'', authors = [''jo smith'', ''Bob Lee''],
       abstract = ''On wind'', url = [], pdf_url = [], published = [],
       source = ''semantic_scholar'', citations = 0, references = [],
       keywords' = [''Plasma'', ''corona'', ''piezo'', ''wind''] \<rparr>"

definition demo_connection :: Connection where
  "demo_connection =
     \<lparr> paper_a = demo_p1, paper_b = demo_p2, strength = 8,
       reason = ''Shared authors: jo smith; Shared keywords: plasma, corona, piezo; Similar topics: plasma, corona'' \<rparr>"


text \<open>
  A cache that holds \<open>demo_p1\<close>, saved at time 100 by a scan for another query, and two
  rows of the query log for the source \<open>arxiv\<close>: the other query at 100 and the query
  \<open>corona\<close>, which found nothing, at 200.
\<close>

definition empty_db :: cache_db where
  "empty_db = \<lparr> papers_table = [], queries_table = [] \<rparr>"

definition demo_db :: cache_db where
  "demo_db =
     record_query
       (record_query (save_papers empty_db [(demo_p1, 100)]) 100 ''piezo'' ''arxiv'' 5 1)
       200 ''corona'' ''arxiv'' 5 0"

text \<open>
  An adapter object whose \<open>search\<close> finds nothing, in a world that counts the searches
  sent to it, and a registry that knows it as \<open>arxiv\<close>.
\<close>

definition counting_source :: "nat source_obj" where
  "counting_source =
     \<lparr> search_of = (\<lambda>w query limit. (Inr [], Suc w)),
       fetch_references_of = (\<lambda>w paper. (Inr [], w)) \<rparr>"

definition counting_lookup :: "string \<Rightarrow> nat source_obj option" where
  "counting_lookup name = (if name = ''arxiv'' then Some counting_source else None)"

definition demo_clock :: "nat \<Rightarrow> int" where
  "demo_clock n = 1000 + int n"

definition fresh_scan :: "nat scan" where
  "fresh_scan = \<lparr> world = 0, cache = empty_db, ticks = 0, all_papers = [] \<rparr>"

text \<open>The state after one scan of \<open>arxiv\<close> that found nothing, with the cache in use.\<close>

definition first_scan :: "nat scan" where
  "first_scan = fetch_from_sources counting_lookup demo_clock True fresh_scan ''q'' [''arxiv''] 5 True"

text \<open>
  An adapter object with a small citation graph: paper 1 cites papers 2 and 3, paper 2
  cites 3, 1 and 4, and the lookup for any other paper fails. The registry knows it under
  both source names of the sample papers.
\<close>

definition demo_p3 :: paper where
  "demo_p3 = demo_p2\<lparr> id' := ''3'' \<rparr>"

definition demo_p4 :: paper where
  "demo_p4 = demo_p2\<lparr> id' := ''4'' \<rparr>"

definition citing_source :: "unit source_obj" where
  "citing_source =
     \<lparr> search_of = (\<lambda>w query limit. (Inr [], w)),
       fetch_references_of =
         (\<lambda>w paper. (if id' paper = ''1'' then Inr [demo_p2, demo_p3]
                      else if id' paper = ''2'' then Inr [demo_p3, demo_p1, demo_p4]
                      else Inl RequestError, w)) \<rparr>"

definition citing_lookup :: "string \<Rightarrow> unit source_obj option" where
  "citing_lookup name =
     (if name = ''arxiv'' \<or> name = ''semantic_scholar'' then Some citing_source else None)"


section \<open>Sample upstreams\<close>

definition good_entry :: arxiv_entry where
  "good_entry =
     \<lparr> e_title = Text ''Ion Wind'', e_summary = Text ''Thrust from corona'',
       e_id = Text ''http://arxiv.org/abs/2401.00001v2'', e_published = Text ''2024-01-01'',
       e_authors = [Text ''Jo Smith''], e_categories = [Some ''physics.plasm-ph''] \<rparr>"

definition good_entry2 :: arxiv_entry where
  "good_entry2 = good_entry\<lparr> e_id := Text ''http://arxiv.org/abs/2401.00002v1'' \<rparr>"

definition bad_entry :: arxiv_entry where
  "bad_entry = good_entry\<lparr> e_title := NoText \<rparr>"

definition good_paper :: paper where
  "good_paper =
     \<lparr> id' = ''2401.00001'', title = ''Ion Wind'', authors = [''Jo Smith''],
       abstract = ''Thrust from corona'', url = ''http://arxiv.org/abs/2401.00001v2'',
       pdf_url = ''https://arxiv.org/pdf/2401.00001.pdf'', published = ''2024-01-01'',
       source = ''arxiv'', citations = 0, references = [],
       keywords' = [''physics.plasm-ph'', ''wind'', ''thrust'', ''corona''] \<rparr>"

definition good_paper2 :: paper where
  "good_paper2 =
     good_paper\<lparr> id' := ''2401.00002'', url := ''http://arxiv.org/abs/2401.00002v1'',
                 pdf_url := ''https://arxiv.org/pdf/2401.00002.pdf'' \<rparr>"

text \<open>
  An arXiv upstream that answers every request with the same feed, whatever
  \<open>max_results\<close> asks for: two entries, or for the query \<open>broken\<close> three entries of which
  the second has an empty title element.
\<close>

definition demo_arxiv :: arxiv_api where
  "demo_arxiv search_query max_results =
     (if search_query = ''all:broken'' then Inr [good_entry, bad_entry, good_entry2]
      else Inr [good_entry, good_entry2])"

definition flu_item :: biorxiv_item where
  "flu_item =
     \<lparr> b_title = Val ''Flu spread'', b_abstract = Null, b_doi = Some ''10.1101/x'',
       b_authors = Some ''A B; C D'', b_date = Some ''2024-01-05'' \<rparr>"

text \<open>
  A medRxiv collection of three items, the second with a \<open>null\<close> title, and an empty
  bioRxiv collection.
\<close>

definition demo_biorxiv :: biorxiv_upstream where
  "demo_biorxiv =
     \<lparr> details = (\<lambda>server. if server = ''medrxiv''
                          then Inr [flu_item, flu_item\<lparr>b_title := Null\<rparr>, flu_item]
                          else Inr []),
       reformat_date = Some \<rparr>"

definition demo_doc :: pubmed_doc where
  "demo_doc =
     \<lparr> d_title = Val ''Flu spread'', d_authors = Val [Val ''A B'', Null],
       d_pubdate = Some ''2024 Jan 5'',
       d_articleids = Val [(Some ''pubmed'', Some ''77''), (Some ''doi'', Some ''10.1/x'')] \<rparr>"

text \<open>
  A PubMed upstream with four identifiers: the second has no summary document, the
  document of the third has a \<open>null\<close> title.
\<close>

definition demo_pubmed :: pubmed_upstream where
  "demo_pubmed =
     \<lparr> esearch = (\<lambda>query retmax. Inr [''77'', ''78'', ''79'', ''77'']),
       esummary = (\<lambda>ids. Inr [''77'' \<mapsto> demo_doc, ''79'' \<mapsto> demo_doc\<lparr>d_title := Null\<rparr>]),
       efetch = (\<lambda>ids. Inr [(Text ''77'', Text ''Cases rise'')]) \<rparr>"

definition demo_item :: s2_item where
  "demo_item =
     \<lparr> s2_paperId = Some ''abc'', s2_title = Val ''Ion Wind'', s2_abstract = Null,
       s2_url = None, s2_openAccessPdf = Null, s2_year = Val 2024,
       s2_authors = Val [Val ''Jo Smith'', Null], s2_citationCount = Null \<rparr>"

definition demo_net :: upstream where
  "demo_net =
     \<lparr> arxiv_up = demo_arxiv,
       s2_search_up =
         (\<lambda>query limit.
            Inr \<lparr> status_code = 200,
                  json_data = Inr [demo_item, demo_item\<lparr>s2_title := Null\<rparr>, demo_item] \<rparr>),
       s2_references_up =
         (\<lambda>paper_id. Inr \<lparr> status_code = 200, json_data = Inr [None, Some demo_item] \<rparr>),
       pubmed_up = demo_pubmed,
       biorxiv_up = demo_biorxiv \<rparr>"

text \<open>The papers the sample items parse to.\<close>

definition s2_paper :: paper where
  "s2_paper =
     \<lparr> id' = ''abc'', title = ''Ion Wind'', authors = [''Jo Smith''], abstract = [],
       url = ''https://www.semanticscholar.org/paper/abc'', pdf_url = [],
       published = ''2024-01-01'', source = ''semantic_scholar'', citations = 0,
       references = [], keywords' = [''wind''] \<rparr>"

definition pubmed_paper :: paper where
  "pubmed_paper =
     \<lparr> id' = ''77'', title = ''Flu spread'', authors = [''A B''], abstract = ''Cases rise'',
       url = ''https://pubmed.ncbi.nlm.nih.gov/77/'', pdf_url = ''https://doi.org/10.1/x'',
       published = ''2024-01-01'', source = ''pubmed'', citations = 0, references = [],
       keywords' = [''spread'', ''cases'', ''rise''] \<rparr>"

definition flu_paper :: paper where
  "flu_paper =
     \<lparr> id' = ''10.1101/x'', title = ''Flu spread'', authors = [''A B'', ''C D''], abstract = [],
       url = ''https://www.medrxiv.org/content/10.1101/x'',
       pdf_url = ''https://www.medrxiv.org/content/10.1101/x.full.pdf'',
       published = ''2024-01-05'', source = ''medrxiv'', citations = 0, references = [],
       keywords' = [''spread''] \<rparr>"

text \<open>An upstream where every request fails.\<close>

definition down_net :: upstream where
  "down_net =
     \<lparr> arxiv_up = (\<lambda>search_query max_results. Inl RequestError),
       s2_search_up = (\<lambda>query limit. Inl RequestError),
       s2_references_up = (\<lambda>paper_id. Inl RequestError),
       pubmed_up = \<lparr> esearch = (\<lambda>query retmax. Inl RequestError),
                     esummary = (\<lambda>ids. Inl RequestError),
                     efetch = (\<lambda>ids. Inl RequestError) \<rparr>,
       biorxiv_up = \<lparr> details = (\<lambda>server. Inl RequestError), reformat_date = Some \<rparr> \<rparr>"

text \<open>A text of 21 different words of four letters.\<close>

definition long_text :: string where
  "long_text =
     ''aaaa aaab aaac aaad aaae aaaf aaag aaah aaai aaaj aaak aaal aaam aaan aaao aaap aaaq aaar aaas aaat aaau''"


section \<open>Round trip of the serialization pair\<close>

text \<open>
  C7. For every Paper \<open>p\<close>, whatever its eleven fields hold, \<open>from_dict(to_dict(p))\<close> is \<open>p\<close>:
  \<open>to_dict\<close> writes every field under its key and \<open>from_dict\<close> reads each key back, so no
  default of \<open>from_dict\<close> is ever used.
\<close>

theorem from_dict_to_dict: "from_dict (to_dict p) = p"
  by (simp add: from_dict_def to_dict_def dict_get_def)

text \<open>In particular a Paper whose fields hold what the annotations say is read back as it was.\<close>

lemma from_dict_to_dict_typed: "from_dict (to_dict (dyn p)) = dyn p"
  by (simp add: from_dict_def to_dict_def dict_get_def)


section \<open>The connection engine: cross-source pairs and strength\<close>

lemma dd_append_keys: "fst ` set (dd_append d k p) = insert k (fst ` set d)"
  by (induction d k p rule: dd_append.induct) auto

lemma dd_append_distinct: "distinct (map fst d) \<Longrightarrow> distinct (map fst (dd_append d k p))"
  by (induction d k p rule: dd_append.induct) (auto simp: dd_append_keys)

lemma dd_append_sources:
  "\<forall>(k, ps) \<in> set d. \<forall>p \<in> set ps. source p = k \<Longrightarrow>
   \<forall>(k', ps) \<in> set (dd_append d (source p) p). \<forall>q \<in> set ps. source q = k'"
  by (induction d "source p" p rule: dd_append.induct) auto

text \<open>The invariant of \<open>papers_by_source\<close>: distinct keys, and each group holds papers of its key.\<close>

lemma group_by_source_inv:
  "distinct (map fst (group_by_source papers)) \<and>
   (\<forall>(k, ps) \<in> set (group_by_source papers). \<forall>p \<in> set ps. source p = k)"
proof -
  have "distinct (map fst d) \<and> (\<forall>(k, ps) \<in> set d. \<forall>p \<in> set ps. source p = k) \<Longrightarrow>
        distinct (map fst (foldl (\<lambda>d p. dd_append d (source p) p) d papers)) \<and>
        (\<forall>(k, ps) \<in> set (foldl (\<lambda>d p. dd_append d (source p) p) d papers).
           \<forall>p \<in> set ps. source p = k)" for d
  proof (induction papers arbitrary: d)
    case Nil
    then show ?case by simp
  next
    case (Cons p papers)
    have "distinct (map fst (dd_append d (source p) p)) \<and>
          (\<forall>(k, ps) \<in> set (dd_append d (source p) p). \<forall>q \<in> set ps. source q = k)"
      using Cons.prems dd_append_distinct dd_append_sources by blast
    from Cons.IH [OF this] show ?case by simp
  qed
  from this [of "[]"] show ?thesis by (simp add: group_by_source_def)
qed

lemma dd_get_source:
  "p \<in> set (dd_get (group_by_source papers) k) \<Longrightarrow> source p = k"
  using group_by_source_inv [of papers] unfolding dd_get_def
  by (auto split: option.splits dest!: map_of_SomeD)

lemma source_pairs_distinct: "distinct xs \<Longrightarrow> (a, b) \<in> set (source_pairs xs) \<Longrightarrow> a \<noteq> b"
  by (induction xs) auto

lemma compared_pairs_sources:
  assumes "(a, b) \<in> set (compared_pairs papers)"
  shows "source a \<noteq> source b"
proof -
  from assms obtain sa sb
    where sp: "(sa, sb) \<in> set (source_pairs (map fst (group_by_source papers)))"
      and a: "a \<in> set (dd_get (group_by_source papers) sa)"
      and b: "b \<in> set (dd_get (group_by_source papers) sb)"
    by (auto simp: compared_pairs_def Let_def)
  have "distinct (map fst (group_by_source papers))"
    using group_by_source_inv by blast
  then have "sa \<noteq> sb" using sp by (rule source_pairs_distinct)
  with dd_get_source [OF a] dd_get_source [OF b] show ?thesis by simp
qed

lemma find_connections_mem:
  "c \<in> set (find_connections papers k) \<Longrightarrow>
   (paper_a c, paper_b c) \<in> set (compared_pairs papers) \<and>
   calculate_connection (paper_a c) (paper_b c) k = (strength c, reason c) \<and> 0 < strength c"
  by (auto simp: find_connections_def connect_def split: prod.splits if_splits)

lemma length_set_inter:
  "length (set_inter (py_set xs) (py_set ys)) = card (set xs \<inter> set ys)"
proof -
  have "distinct (set_inter (py_set xs) (py_set ys))"
    by (simp add: set_inter_def py_set_def)
  then have "length (set_inter (py_set xs) (py_set ys))
               = card (set (set_inter (py_set xs) (py_set ys)))"
    by (simp add: distinct_card)
  also have "set (set_inter (py_set xs) (py_set ys)) = set xs \<inter> set ys"
    by (auto simp: set_inter_def py_set_def)
  finally show ?thesis .
qed

lemma length_title_inter:
  "length (set_inter (set_minus (py_set xs) cw) (set_minus (py_set ys) cw))
     = card ((set xs - set cw) \<inter> (set ys - set cw))"
proof -
  let ?l = "set_inter (set_minus (py_set xs) cw) (set_minus (py_set ys) cw)"
  have "distinct ?l" by (simp add: set_inter_def set_minus_def py_set_def)
  then have "length ?l = card (set ?l)" by (simp add: distinct_card)
  also have "set ?l = (set xs - set cw) \<inter> (set ys - set cw)"
    by (auto simp: set_inter_def set_minus_def py_set_def)
  finally show ?thesis .
qed

lemma fst_author_block:
  "fst (author_block pa pb (s, r)) = s + author_signal pa pb"
proof -
  have "int (length (shared_authors pa pb))
       = int (card (lower ` set (authors pa) \<inter> lower ` set (authors pb)))"
    by (simp add: shared_authors_def length_set_inter)
  then show ?thesis
    by (cases "shared_authors pa pb") (auto simp: author_block_def author_signal_def)
qed

lemma fst_keyword_block:
  "fst (keyword_block pa pb k (s, r)) = s + keyword_signal pa pb k"
proof -
  have "int (length (shared_keywords pa pb))
       = int (card (lower ` set (keywords' pa) \<inter> lower ` set (keywords' pb)))"
    by (simp add: shared_keywords_def length_set_inter)
  then show ?thesis
    by (simp add: keyword_block_def keyword_signal_def Let_def)
qed

lemma fst_title_block:
  "fst (title_block pa pb (s, r)) = s + title_signal pa pb"
proof -
  have "length (shared_title_words pa pb) = card (title_words pa \<inter> title_words pb)"
    by (simp add: shared_title_words_def length_title_inter title_words_def)
  then show ?thesis
    by (simp add: title_block_def title_signal_def Let_def)
qed

lemma calculate_connection_strength:
  "fst (calculate_connection pa pb k) = spec_strength pa pb k"
proof -
  obtain s1 r1 where b1: "author_block pa pb (0, []) = (s1, r1)"
    by (cases "author_block pa pb (0, [])")
  obtain s2 r2 where b2: "keyword_block pa pb k (s1, r1) = (s2, r2)"
    by (cases "keyword_block pa pb k (s1, r1)")
  obtain s3 r3 where b3: "title_block pa pb (s2, r2) = (s3, r3)"
    by (cases "title_block pa pb (s2, r2)")
  have "s1 = author_signal pa pb"
    using fst_author_block [of pa pb 0 "[]"] b1 by simp
  moreover have "s2 = s1 + keyword_signal pa pb k"
    using fst_keyword_block [of pa pb k s1 r1] b2 by simp
  moreover have "s3 = s2 + title_signal pa pb"
    using fst_title_block [of pa pb s2 r2] b3 by simp
  moreover have "fst (calculate_connection pa pb k) = min s3 10"
    by (simp add: calculate_connection_def b1 b2 b3)
  ultimately show ?thesis by (simp add: spec_strength_def)
qed

lemma find_connections_demo:
  "find_connections [demo_p1, demo_p2] 3 = [demo_connection]"
  by code_simp

text \<open>
  C1. The strength \<open>_calculate_connection\<close> returns for a pair is the sum of the three
  signals of the design (shared lowercased authors, \<open>min(n * 3, 7)\<close>; shared lowercased
  keywords, \<open>min(n, 5)\<close> when \<open>n\<close> reaches the threshold; shared title words outside the
  stopword list, \<open>min(n, 3)\<close> when \<open>n\<close> is at least 2), capped at 10. A compared pair yields
  a Connection exactly when that number is positive, and every Connection that
  \<open>find_connections\<close> returns carries that number as its strength, between 1 and 10.
\<close>

theorem connection_strength:
  "fst (calculate_connection pa pb k) = spec_strength pa pb k \<and>
   (connect k (pa, pb) = [] \<longleftrightarrow> spec_strength pa pb k \<le> 0) \<and>
   (\<forall>c \<in> set (find_connections papers k).
      strength c = spec_strength (paper_a c) (paper_b c) k \<and> 1 \<le> strength c \<and> strength c \<le> 10)"
proof (intro conjI ballI)
  show "fst (calculate_connection pa pb k) = spec_strength pa pb k"
    by (rule calculate_connection_strength)
  show "connect k (pa, pb) = [] \<longleftrightarrow> spec_strength pa pb k \<le> 0"
    using calculate_connection_strength [of pa pb k]
    by (cases "calculate_connection pa pb k") (auto simp: connect_def)
next
  fix c assume c: "c \<in> set (find_connections papers k)"
  from find_connections_mem [OF c]
  have eq: "strength c = spec_strength (paper_a c) (paper_b c) k" and pos: "0 < strength c"
    using calculate_connection_strength [of "paper_a c" "paper_b c" k] by simp_all
  show "strength c = spec_strength (paper_a c) (paper_b c) k" by (rule eq)
  show "1 \<le> strength c" using pos by simp
  show "strength c \<le> 10" using eq by (simp add: spec_strength_def)
qed

theorem connection_strength_witness:
  "demo_connection \<in> set (find_connections [demo_p1, demo_p2] 3) \<and>
   strength demo_connection = spec_strength demo_p1 demo_p2 3 \<and>
   strength demo_connection = 8 \<and>
   connect 3 (demo_p1, demo_p2) \<noteq> []"
proof -
  have m: "demo_connection \<in> set (find_connections [demo_p1, demo_p2] 3)"
    by (simp add: find_connections_demo)
  have s: "strength demo_connection = 8" "paper_a demo_connection = demo_p1"
    "paper_b demo_connection = demo_p2"
    by (simp_all add: demo_connection_def)
  from connection_strength [of demo_p1 demo_p2 3 "[demo_p1, demo_p2]"] m s
  show ?thesis by auto
qed

text \<open>
  C5. Every Connection returned by \<open>find_connections\<close> pairs two papers whose \<open>source\<close>
  fields differ.
\<close>

theorem find_connections_cross_source:
  "\<forall>c \<in> set (find_connections papers k). source (paper_a c) \<noteq> source (paper_b c)"
  using find_connections_mem compared_pairs_sources by blast

theorem find_connections_cross_source_witness:
  "demo_connection \<in> set (find_connections [demo_p1, demo_p2] 3) \<and>
   source (paper_a demo_connection) = ''arxiv'' \<and>
   source (paper_b demo_connection) = ''semantic_scholar'' \<and>
   source (paper_a demo_connection) \<noteq> source (paper_b demo_connection)"
proof -
  have m: "demo_connection \<in> set (find_connections [demo_p1, demo_p2] 3)"
    by (simp add: find_connections_demo)
  have "source (paper_a demo_connection) = ''arxiv''"
    "source (paper_b demo_connection) = ''semantic_scholar''"
    by (simp_all add: demo_connection_def demo_p1_def demo_p2_def)
  with find_connections_cross_source [of "[demo_p1, demo_p2]" 3] m show ?thesis by blast
qed


section \<open>The cache: hits, misses and the repeated search\<close>

lemma sort_key_Nil: "sort_key f xs = [] \<longleftrightarrow> xs = []"
  by (metis length_sort length_0_conv)

lemma fresh_row_filter:
  "fresh_row db now query src h \<longleftrightarrow>
   filter (\<lambda>q. q_query q = query \<and> q_source q = src \<and> cutoff_of now h < q_timestamp q) (queries_table db) \<noteq> []"
  by (auto simp: fresh_row_def filter_empty_conv)

lemma get_cached_cases:
  "get_cached db now query src h =
     (if fresh_row db now query src h \<and> window_rows db now src h \<noteq> []
      then Some (map row_to_paper (sort_key (\<lambda>r. - fetched_at r) (window_rows db now src h)))
      else None)"
  by (simp add: get_cached_def Let_def fresh_row_filter window_rows_def sort_key_Nil)

text \<open>
  C2. \<open>get_cached\<close> returns a list only if the query log holds a row for exactly this
  query and source inside the freshness window; the list then holds, once each, every
  row of \<open>papers\<close> of that source whose \<open>fetched_at\<close> is inside the window, whatever query
  fetched it. When such a log row exists and the window holds a paper of the source, a
  list is returned.
\<close>

theorem get_cached_hit:
  "(get_cached db now query src h = Some ps \<longrightarrow>
      fresh_row db now query src h \<and>
      mset ps = mset (map row_to_paper (window_rows db now src h))) \<and>
   (fresh_row db now query src h \<and> window_rows db now src h \<noteq> [] \<longrightarrow>
      (\<exists>ps. get_cached db now query src h = Some ps))"
  by (auto simp: get_cached_cases)

lemma demo_db_eval:
  "get_cached demo_db 300 ''corona'' ''arxiv'' 24 = Some [demo_p1]"
  by code_simp

theorem get_cached_hit_witness:
  "get_cached demo_db 300 ''corona'' ''arxiv'' 24 = Some [demo_p1] \<and>
   fresh_row demo_db 300 ''corona'' ''arxiv'' 24 \<and>
   mset [demo_p1] = mset (map row_to_paper (window_rows demo_db 300 ''arxiv'' 24)) \<and>
   map q_result_count (filter (\<lambda>r. q_query r = ''corona'') (queries_table demo_db)) = [0]"
proof -
  have "map q_result_count (filter (\<lambda>r. q_query r = ''corona'') (queries_table demo_db)) = [0]"
    by code_simp
  with get_cached_hit [of demo_db 300 "''corona''" "''arxiv''" 24 "[demo_p1]"] demo_db_eval
  show ?thesis by blast
qed

text \<open>What one search of the loop body leaves in the state.\<close>

lemma run_search_result:
  "world (run_search clock ca query limit uc src name st) = snd (search_of src (world st) query limit) \<and>
   all_papers (run_search clock ca query limit uc src name st)
     = all_papers st @ returned (fst (search_of src (world st) query limit))"
  by (auto simp: run_search_def store_results_def returned_def Let_def split: prod.splits sum.splits)

lemma fetch_one_all_papers:
  "\<exists>more. all_papers (fetch_one lookup clock ca query limit uc st name) = all_papers st @ more"
  by (auto simp: fetch_one_def run_search_result split: option.splits list.splits)

lemma foldl_fetch_one_all_papers:
  "\<exists>more. all_papers (foldl (fetch_one lookup clock ca query limit uc) st names) = all_papers st @ more"
proof (induction names arbitrary: st)
  case Nil
  then show ?case by simp
next
  case (Cons name names)
  obtain m1 where m1: "all_papers (fetch_one lookup clock ca query limit uc st name) = all_papers st @ m1"
    using fetch_one_all_papers by blast
  obtain m2 where "all_papers (foldl (fetch_one lookup clock ca query limit uc)
                     (fetch_one lookup clock ca query limit uc st name) names)
                   = all_papers (fetch_one lookup clock ca query limit uc st name) @ m2"
    using Cons.IH by blast
  with m1 show ?case by simp
qed

lemma fetch_one_miss:
  assumes "lookup name = Some src"
    and "get_cached (cache st) (clock (ticks st)) query name 24 = None"
  shows "world (fetch_one lookup clock ca query limit uc st name)
           = snd (search_of src (world st) query limit) \<and>
         all_papers (fetch_one lookup clock ca query limit uc st name)
           = all_papers st @ returned (fst (search_of src (world st) query limit))"
  using assms by (simp add: fetch_one_def run_search_result)

text \<open>
  C10. With a fresh row in the query log and no paper of the source inside the window,
  \<open>get_cached\<close> returns \<open>None\<close>, not an empty list; and a scan that starts in such a state
  searches that source again: the outside world after the scan is the one that
  \<open>search\<close> of the adapter leaves, and \<open>all_papers\<close> starts with what that search returned.
\<close>

theorem empty_result_is_cache_miss:
  "(fresh_row db now query src h \<and> window_rows db now src h = [] \<longrightarrow>
      get_cached db now query src h = None) \<and>
   (lookup src = Some obj \<and> fresh_row (cache st) (clock (ticks st)) query src 24 \<and>
    window_rows (cache st) (clock (ticks st)) src 24 = [] \<longrightarrow>
      world (fetch_from_sources lookup clock ca st query [src] limit uc)
        = snd (search_of obj (world st) query limit) \<and>
      all_papers (fetch_from_sources lookup clock ca st query [src] limit uc)
        = returned (fst (search_of obj (world st) query limit)) \<and>
      (\<exists>more. all_papers (fetch_from_sources lookup clock ca st query (src # rest) limit uc)
               = returned (fst (search_of obj (world st) query limit)) @ more))"
proof (intro conjI impI)
  assume "fresh_row db now query src h \<and> window_rows db now src h = []"
  then show "get_cached db now query src h = None" by (simp add: get_cached_cases)
next
  assume a: "lookup src = Some obj \<and> fresh_row (cache st) (clock (ticks st)) query src 24 \<and>
    window_rows (cache st) (clock (ticks st)) src 24 = []"
  let ?st = "st\<lparr>all_papers := []\<rparr>"
  let ?one = "fetch_one lookup clock ca query limit uc ?st src"
  have "get_cached (cache ?st) (clock (ticks ?st)) query src 24 = None"
    using a by (simp add: get_cached_cases)
  with a have one: "world ?one = snd (search_of obj (world st) query limit)"
    "all_papers ?one = returned (fst (search_of obj (world st) query limit))"
    using fetch_one_miss [of lookup src obj ?st clock query ca limit uc] by simp_all
  show "world (fetch_from_sources lookup clock ca st query [src] limit uc)
        = snd (search_of obj (world st) query limit)"
    using one by (simp add: fetch_from_sources_def)
  show "all_papers (fetch_from_sources lookup clock ca st query [src] limit uc)
        = returned (fst (search_of obj (world st) query limit))"
    using one by (simp add: fetch_from_sources_def)
  obtain more where
    "all_papers (foldl (fetch_one lookup clock ca query limit uc) ?one rest) = all_papers ?one @ more"
    using foldl_fetch_one_all_papers by blast
  with one show "\<exists>more. all_papers (fetch_from_sources lookup clock ca st query (src # rest) limit uc)
               = returned (fst (search_of obj (world st) query limit)) @ more"
    by (simp add: fetch_from_sources_def)
qed

lemma first_scan_eval:
  "world first_scan = 1 \<and> ticks first_scan = 2 \<and> all_papers first_scan = [] \<and>
   cache first_scan = record_query empty_db 1001 ''q'' ''arxiv'' 5 0"
  by code_simp

theorem empty_result_is_cache_miss_witness:
  "fresh_row (cache first_scan) (demo_clock (ticks first_scan)) ''q'' ''arxiv'' 24 \<and>
   window_rows (cache first_scan) (demo_clock (ticks first_scan)) ''arxiv'' 24 = [] \<and>
   get_cached (cache first_scan) (demo_clock (ticks first_scan)) ''q'' ''arxiv'' 24 = None \<and>
   world first_scan = 1 \<and>
   world (fetch_from_sources counting_lookup demo_clock True first_scan ''q'' [''arxiv''] 5 True) = 2"
proof -
  have f: "fresh_row (cache first_scan) (demo_clock (ticks first_scan)) ''q'' ''arxiv'' 24"
    by (simp add: first_scan_eval fresh_row_def record_query_def empty_db_def cutoff_of_def demo_clock_def)
  have w: "window_rows (cache first_scan) (demo_clock (ticks first_scan)) ''arxiv'' 24 = []"
    by (simp add: first_scan_eval window_rows_def record_query_def empty_db_def)
  have l: "counting_lookup ''arxiv'' = Some counting_source" by (simp add: counting_lookup_def)
  have s: "snd (search_of counting_source (world first_scan) ''q'' 5) = 2"
    by (simp add: first_scan_eval counting_source_def)
  from empty_result_is_cache_miss [of "cache first_scan" "demo_clock (ticks first_scan)" "''q''"
      "''arxiv''" 24 counting_lookup counting_source first_scan demo_clock True 5 True "[]"] f w l s
  show ?thesis by (simp add: first_scan_eval)
qed


section \<open>Reference traversal: what is added, and how often\<close>

lemma unseen_keys: "paper_key ` set (unseen seen rs) = paper_key ` set rs - seen"
  by (induction seen rs rule: unseen.induct) auto

lemma unseen_not_seen: "x \<in> set (unseen seen rs) \<Longrightarrow> paper_key x \<notin> seen"
  using unseen_keys [of seen rs] by blast

lemma unseen_distinct: "distinct (map paper_key (unseen seen rs))"
  by (induction seen rs rule: unseen.induct) (auto dest: unseen_not_seen)

lemma unseen_append:
  "unseen seen (xs @ ys)
     = unseen seen xs @ unseen (seen \<union> set (map paper_key (unseen seen xs))) ys"
  by (induction seen xs rule: unseen.induct) (auto simp: insert_absorb)

text \<open>The loops of the source compute what the design's words say.\<close>

lemma refs_loop_unseen:
  "refs_loop refs (seen, new)
     = (seen \<union> set (map paper_key (unseen seen refs)), new @ unseen seen refs)"
  by (induction refs arbitrary: seen new) (auto simp: paper_key_def Let_def)

lemma level_loop_fetched:
  "level_loop lookup m papers (w, seen, new)
     = (snd (fetched lookup m papers w),
        seen \<union> set (map paper_key (unseen seen (fst (fetched lookup m papers w)))),
        new @ unseen seen (fst (fetched lookup m papers w)))"
proof (induction papers arbitrary: w seen new)
  case Nil
  show ?case by simp
next
  case (Cons p papers)
  show ?case
  proof (cases "lookup (source p)")
    case None
    with Cons.IH [of w seen new] show ?thesis by simp
  next
    case (Some src)
    obtain r w1 where f: "fetch_references_of src w p = (r, w1)"
      by (cases "fetch_references_of src w p")
    show ?thesis
    proof (cases r)
      case (Inl e)
      with Some f Cons.IH [of w1 seen new] show ?thesis by simp
    next
      case (Inr refs)
      obtain others w2 where o: "fetched lookup m papers w1 = (others, w2)"
        by (cases "fetched lookup m papers w1")
      let ?seen1 = "seen \<union> set (map paper_key (unseen seen (slice_to m refs)))"
      have "level_loop lookup m (p # papers) (w, seen, new)
            = level_loop lookup m papers (w1, ?seen1, new @ unseen seen (slice_to m refs))"
        using Some f Inr by (simp add: refs_loop_unseen)
      also have "\<dots> = (w2, ?seen1 \<union> set (map paper_key (unseen ?seen1 others)),
                       (new @ unseen seen (slice_to m refs)) @ unseen ?seen1 others)"
        using Cons.IH [of w1 ?seen1 "new @ unseen seen (slice_to m refs)"] o by simp
      finally show ?thesis
        using Some f Inr o by (simp add: unseen_append Un_assoc)
    qed
  qed
qed

lemma levels_discovered:
  "snd (levels lookup m n papers (w, seen, all)) = all @ discovered lookup m n papers seen w"
proof (induction n arbitrary: papers w seen all)
  case 0
  show ?case by simp
next
  case (Suc n)
  obtain refs w' where f: "fetched lookup m papers w = (refs, w')"
    by (cases "fetched lookup m papers w")
  show ?case
  proof (cases "unseen seen refs = []")
    case True
    with f show ?thesis by (simp add: level_loop_fetched)
  next
    case False
    with f Suc.IH [of "unseen seen refs" w' "seen \<union> set (map paper_key (unseen seen refs))"
        "all @ unseen seen refs"]
    show ?thesis by (simp add: level_loop_fetched Let_def)
  qed
qed

lemma discovered_keys:
  "distinct (map paper_key (discovered lookup m n previous seen w)) \<and>
   set (map paper_key (discovered lookup m n previous seen w)) \<inter> seen = {}"
proof (induction n arbitrary: previous seen w)
  case 0
  show ?case by simp
next
  case (Suc n)
  obtain refs w' where f: "fetched lookup m previous w = (refs, w')"
    by (cases "fetched lookup m previous w")
  let ?new = "unseen seen refs"
  show ?case
  proof (cases "?new = []")
    case True
    with f show ?thesis by simp
  next
    case False
    let ?rest = "discovered lookup m n ?new (seen \<union> set (map paper_key ?new)) w'"
    have d: "discovered lookup m (Suc n) previous seen w = ?new @ ?rest"
      using f False by (simp add: Let_def)
    have r: "distinct (map paper_key ?rest)"
      "set (map paper_key ?rest) \<inter> (seen \<union> set (map paper_key ?new)) = {}"
      using Suc.IH [of ?new "seen \<union> set (map paper_key ?new)" w'] by simp_all
    have n: "distinct (map paper_key ?new)" "set (map paper_key ?new) \<inter> seen = {}"
      using unseen_distinct [of seen refs] unseen_keys [of seen refs] by auto
    show ?thesis unfolding d using r n by auto
  qed
qed

lemma discovered_first_level:
  "set (map paper_key (fst (fetched lookup m previous w)))
     \<subseteq> seen \<union> set (map paper_key (discovered lookup m (Suc n) previous seen w))"
proof -
  obtain refs w' where f: "fetched lookup m previous w = (refs, w')"
    by (cases "fetched lookup m previous w")
  have "set (map paper_key refs) \<subseteq> seen \<union> set (map paper_key (unseen seen refs))"
    using unseen_keys [of seen refs] by auto
  moreover have "set (map paper_key (unseen seen refs))
     \<subseteq> set (map paper_key (discovered lookup m (Suc n) previous seen w))"
    using f by (cases "unseen seen refs = []") (auto simp: Let_def)
  ultimately show ?thesis using f by auto
qed

text \<open>
  C8, as amended. The list \<open>fetch_references_recursive\<close> returns is the input list, as it
  is, followed by the newly discovered papers, which are exactly those the design
  describes (\<open>new_papers_of\<close>): level by level, the fetched references whose key was not
  seen before, each key once. So the keys of the new papers are pairwise different and
  different from every key of the input; an input without a repeated key gives a result
  without one; and with a positive depth every reference fetched for the input papers
  has its key in the result.
\<close>

theorem traversal_adds_each_key_once:
  "snd (fetch_references_recursive lookup w papers depth m)
     = papers @ new_papers_of lookup w papers depth m \<and>
   distinct (map paper_key (new_papers_of lookup w papers depth m)) \<and>
   set (map paper_key (new_papers_of lookup w papers depth m)) \<inter> set (map paper_key papers) = {} \<and>
   (distinct (map paper_key papers) \<longrightarrow>
      distinct (map paper_key (snd (fetch_references_recursive lookup w papers depth m)))) \<and>
   (0 < depth \<longrightarrow>
      set (map paper_key (fst (fetched lookup m papers w)))
        \<subseteq> set (map paper_key (snd (fetch_references_recursive lookup w papers depth m))))"
proof -
  let ?new = "new_papers_of lookup w papers depth m"
  have r: "snd (fetch_references_recursive lookup w papers depth m) = papers @ ?new"
    by (simp add: fetch_references_recursive_def new_papers_of_def levels_discovered)
  have d: "distinct (map paper_key ?new)"
    and i: "set (map paper_key ?new) \<inter> set (map paper_key papers) = {}"
    using discovered_keys [of lookup m "nat depth" papers "set (map paper_key papers)" w]
    by (simp_all add: new_papers_of_def)
  have "distinct (map paper_key (papers @ ?new))" if "distinct (map paper_key papers)"
    using that d i by auto
  moreover have "set (map paper_key (fst (fetched lookup m papers w)))
        \<subseteq> set (map paper_key (papers @ ?new))" if "0 < depth"
  proof -
    from that obtain n where n: "nat depth = Suc n" by (cases "nat depth") auto
    from that n discovered_first_level [of lookup m papers w "set (map paper_key papers)" n]
    show ?thesis by (auto simp: new_papers_of_def)
  qed
  ultimately show ?thesis using r d i by simp
qed

lemma demo_traversal:
  "snd (fetch_references_recursive citing_lookup () [demo_p1] 3 5) = [demo_p1, demo_p2, demo_p3, demo_p4]"
  by code_simp

lemma demo_fetched: "fst (fetched citing_lookup 5 [demo_p1] ()) = [demo_p2, demo_p3]"
  by code_simp

theorem traversal_adds_each_key_once_witness:
  "snd (fetch_references_recursive citing_lookup () [demo_p1] 3 5)
     = [demo_p1] @ [demo_p2, demo_p3, demo_p4] \<and>
   new_papers_of citing_lookup () [demo_p1] 3 5 = [demo_p2, demo_p3, demo_p4] \<and>
   distinct (map paper_key [demo_p1]) \<and> (0::int) < 3 \<and>
   distinct (map paper_key [demo_p1, demo_p2, demo_p3, demo_p4]) \<and>
   set (map paper_key [demo_p2, demo_p3])
     \<subseteq> set (map paper_key [demo_p1, demo_p2, demo_p3, demo_p4])"
proof -
  note t = traversal_adds_each_key_once [of citing_lookup "()" "[demo_p1]" 3 5]
  have n: "new_papers_of citing_lookup () [demo_p1] 3 5 = [demo_p2, demo_p3, demo_p4]"
    using t demo_traversal by simp
  have d: "distinct (map paper_key [demo_p1, demo_p2, demo_p3, demo_p4])"
    using t unfolding demo_traversal by simp
  have s: "set (map paper_key [demo_p2, demo_p3])
     \<subseteq> set (map paper_key [demo_p1, demo_p2, demo_p3, demo_p4])"
    by simp
  from n d s demo_traversal show ?thesis by simp
qed

text \<open>
  The input list itself is copied as it is: a key that occurs twice in the input occurs
  twice in the result.
\<close>

theorem traversal_repeats_input_duplicates:
  "\<not> distinct (map paper_key (snd (fetch_references_recursive citing_lookup () [demo_p1, demo_p1] 3 5)))"
  by code_simp


section \<open>The adapters: exceptions, limits, sources and keywords\<close>

lemma except_pass_Inr: "except_pass (raised, v) = Inr v"
  by (cases raised) (simp_all add: except_pass_def)

lemma except_pass_snd: "except_pass outcome = Inr (snd outcome)"
  by (cases outcome) (simp add: except_pass_Inr)

lemma set_slice_to: "set (slice_to n xs) \<subseteq> set xs"
  by (auto simp: slice_to_def dest: in_set_takeD)

lemma length_slice_to: "0 \<le> n \<Longrightarrow> int (length (slice_to n xs)) \<le> n"
  by (simp add: slice_to_def)

text \<open>Every paper a parsing loop leaves in \<open>papers\<close> was there before or is a successful parse.\<close>

lemma parse_loop_papers:
  "p \<in> set (snd (parse_loop parse items papers)) \<Longrightarrow>
   p \<in> set papers \<or> (\<exists>i \<in> set items. parse i = Inr p)"
  by (induction parse items papers rule: parse_loop.induct) (auto split: sum.splits)


lemma pubmed_loop_papers:
  "p \<in> set (snd (pubmed_loop result abstracts idlist papers)) \<Longrightarrow>
   p \<in> set papers \<or>
   (\<exists>pmid \<in> set idlist. \<exists>doc abstract_s. result pmid = Some doc \<and>
      pubmed_parse_paper pmid doc abstract_s = Inr p)"
  by (induction result abstracts idlist papers rule: pubmed_loop.induct)
     (auto split: sum.splits option.splits)

lemma server_loop_papers:
  "p \<in> set (snd (server_loop reformat server ql limit items papers)) \<Longrightarrow>
   p \<in> set papers \<or> (\<exists>i \<in> set items. biorxiv_parse_paper reformat i server = Inr p)"
  by (induction reformat server ql limit items papers rule: server_loop.induct)
     (auto split: sum.splits if_splits bool.splits)

text \<open>The loops of the adapters collect what \<open>collected\<close> says.\<close>

lemma parse_loop_collected:
  "snd (parse_loop parse items papers) = papers @ collected (parsed parse) items"
  by (induction parse items papers rule: parse_loop.induct)
     (auto simp: parsed_def split: sum.splits)

lemma collected_parsed_prefix:
  "collected (parsed parse) items
     = map (\<lambda>i. case parse i of Inr p \<Rightarrow> p)
         (takeWhile (\<lambda>i. case parse i of Inl e \<Rightarrow> False | Inr p \<Rightarrow> True) items)"
  by (induction items) (auto simp: parsed_def split: sum.splits)

lemma pubmed_loop_collected:
  "snd (pubmed_loop result abstracts idlist papers)
     = papers @ collected
         (\<lambda>pmid. case result pmid of
                   None \<Rightarrow> Inr None
                 | Some doc \<Rightarrow> parsed (pubmed_parse_paper pmid doc) (dict_get abstracts pmid []))
         idlist"
  by (induction result abstracts idlist papers rule: pubmed_loop.induct)
     (auto simp: parsed_def split: sum.splits option.splits)

lemma server_loop_step:
  "server_loop reformat server ql limit (item # rest) papers
     = (case matching_paper reformat server ql item of
          Inl e \<Rightarrow> (Some e, papers)
        | Inr None \<Rightarrow> server_loop reformat server ql limit rest papers
        | Inr (Some p) \<Rightarrow>
            if limit \<le> int (length papers) + 1 then (None, papers @ [p])
            else server_loop reformat server ql limit rest (papers @ [p]))"
proof (cases "ql = []")
  case True
  then show ?thesis
    by (cases "biorxiv_parse_paper reformat item server")
       (simp_all add: matching_paper_def parsed_def)
next
  case False
  show ?thesis
  proof (cases "b_title item")
    case Null
    with False show ?thesis by (simp add: matching_paper_def bind_def get_str_def)
  next
    case Missing
    with False show ?thesis
      by (cases "biorxiv_parse_paper reformat item server")
         (simp_all add: matching_paper_def parsed_def bind_def get_str_def get_or_def)
  next
    case (Val t)
    with False show ?thesis
      by (cases "biorxiv_parse_paper reformat item server")
         (simp_all add: matching_paper_def parsed_def bind_def get_str_def get_or_def)
  qed
qed

lemma server_loop_collected:
  "snd (server_loop reformat server ql limit items papers)
     = papers @ take (max 1 (nat (limit - int (length papers))))
                  (collected (matching_paper reformat server ql) items)"
proof (induction items arbitrary: papers)
  case Nil
  show ?case by simp
next
  case (Cons item rest)
  show ?case
  proof (cases "matching_paper reformat server ql item")
    case (Inl e)
    then show ?thesis by (simp add: server_loop_step del: server_loop.simps)
  next
    case (Inr r)
    show ?thesis
    proof (cases r)
      case None
      with Inr Cons.IH [of papers] show ?thesis
        by (simp add: server_loop_step del: server_loop.simps)
    next
      case (Some p)
      show ?thesis
      proof (cases "limit \<le> int (length papers) + 1")
        case True
        then have "max 1 (nat (limit - int (length papers))) = 1" by simp
        with Inr Some True show ?thesis
          by (simp add: server_loop_step del: server_loop.simps)
      next
        case False
        define k where "k = nat (limit - int (length papers)) - 2"
        have k: "nat (limit - int (length papers)) = Suc (Suc k)"
          using False by (auto simp: k_def)
        have "nat (limit - int (length (papers @ [p]))) = Suc k"
          using k by auto
        with Inr Some False k Cons.IH [of "papers @ [p]"] show ?thesis
          by (simp add: server_loop_step del: server_loop.simps)
      qed
    qed
  qed
qed

lemma arxiv_parse_entry_fields:
  "arxiv_parse_entry e = Inr p \<Longrightarrow> source p = ''arxiv'' \<and> length (keywords' p) \<le> 20"
  by (auto simp: arxiv_parse_entry_def bind_def Let_def split: sum.splits)

lemma s2_parse_paper_fields:
  "s2_parse_paper i = Inr p \<Longrightarrow> source p = ''semantic_scholar'' \<and> length (keywords' p) \<le> 20"
  by (auto simp: s2_parse_paper_def bind_def Let_def split: sum.splits)

lemma pubmed_parse_paper_fields:
  "pubmed_parse_paper pmid doc a = Inr p \<Longrightarrow> source p = ''pubmed'' \<and> length (keywords' p) \<le> 20"
  by (auto simp: pubmed_parse_paper_def bind_def Let_def split: sum.splits)

lemma biorxiv_parse_paper_fields:
  "biorxiv_parse_paper reformat i server = Inr p \<Longrightarrow> source p = server \<and> length (keywords' p) \<le> 20"
  by (auto simp: biorxiv_parse_paper_def bind_def Let_def split: sum.splits)

lemma arxiv_search_returns:
  "\<exists>ps. arxiv_search api q l = Inr ps \<and>
        (\<forall>p \<in> set ps. \<exists>entries e. api (if q \<noteq> [] then ''all:'' @ q else ''all'') l = Inr entries \<and>
             e \<in> set entries \<and> arxiv_parse_entry e = Inr p)"
proof (cases "api (if q \<noteq> [] then ''all:'' @ q else ''all'') l")
  case (Inl e)
  then show ?thesis by (simp add: arxiv_search_def except_pass_snd)
next
  case (Inr entries)
  then have "arxiv_search api q l = Inr (snd (parse_loop arxiv_parse_entry entries []))"
    by (simp add: arxiv_search_def except_pass_snd)
  moreover have "\<forall>p \<in> set (snd (parse_loop arxiv_parse_entry entries [])).
      \<exists>e \<in> set entries. arxiv_parse_entry e = Inr p"
    using parse_loop_papers [of _ arxiv_parse_entry entries "[]"] by auto
  ultimately show ?thesis using Inr by auto
qed

lemma s2_search_returns:
  "\<exists>ps. s2_search api q l = Inr ps \<and>
        (\<forall>p \<in> set ps. \<exists>resp items i. api q l = Inr resp \<and> json_data resp = Inr items \<and>
             i \<in> set items \<and> s2_parse_paper i = Inr p)"
proof (cases "api q l")
  case (Inl e)
  then show ?thesis by (simp add: s2_search_def except_pass_snd)
next
  case (Inr resp)
  show ?thesis
  proof (cases "json_data resp")
    case (Inl e)
    with Inr show ?thesis by (simp add: s2_search_def except_pass_snd)
  next
    case r: (Inr items)
    have "\<forall>p \<in> set (snd (parse_loop s2_parse_paper items [])).
      \<exists>i \<in> set items. s2_parse_paper i = Inr p"
      using parse_loop_papers [of _ s2_parse_paper items "[]"] by auto
    with Inr r show ?thesis by (auto simp: s2_search_def except_pass_snd)
  qed
qed

lemma pubmed_search_returns:
  "\<exists>ps. pubmed_search api q l = Inr ps \<and>
        (\<forall>p \<in> set ps. \<exists>idlist result pmid doc abstract_s.
             esearch api q l = Inr idlist \<and> esummary api idlist = Inr result \<and>
             pmid \<in> set idlist \<and> result pmid = Some doc \<and>
             pubmed_parse_paper pmid doc abstract_s = Inr p)"
proof (cases "esearch api q l")
  case (Inl e)
  then show ?thesis by (simp add: pubmed_search_def except_pass_snd)
next
  case (Inr idlist)
  show ?thesis
  proof (cases "esummary api idlist")
    case (Inl e)
    with Inr show ?thesis by (simp add: pubmed_search_def except_pass_snd)
  next
    case r: (Inr result)
    have "\<forall>p \<in> set (snd (pubmed_loop result (fetch_abstracts api idlist) idlist [])).
      \<exists>pmid \<in> set idlist. \<exists>doc abstract_s. result pmid = Some doc \<and>
         pubmed_parse_paper pmid doc abstract_s = Inr p"
      using pubmed_loop_papers [of _ result "fetch_abstracts api idlist" idlist "[]"] by auto
    moreover have "pubmed_search api q l
        = Inr (if idlist = [] then [] else snd (pubmed_loop result (fetch_abstracts api idlist) idlist []))"
      using Inr r by (simp add: pubmed_search_def except_pass_snd)
    ultimately show ?thesis using Inr r by (cases "idlist = []") (simp, simp, blast)
  qed
qed

lemma fetch_from_server_papers:
  "p \<in> set (fetch_from_server api server q l) \<Longrightarrow>
   \<exists>items i. details api server = Inr items \<and> i \<in> set items \<and>
             biorxiv_parse_paper (reformat_date api) i server = Inr p"
proof (cases "details api server")
  case (Inl e)
  assume "p \<in> set (fetch_from_server api server q l)"
  with Inl show ?thesis by (simp add: fetch_from_server_def except_pass_snd)
next
  case (Inr items)
  assume "p \<in> set (fetch_from_server api server q l)"
  with Inr have "p \<in> set (snd (server_loop (reformat_date api) server
       (if q \<noteq> [] then lower q else []) l items []))"
    by (simp add: fetch_from_server_def except_pass_snd)
  from server_loop_papers [OF this] Inr show ?thesis by auto
qed

lemma fetch_from_server_failure:
  "details api server = Inl e \<Longrightarrow> fetch_from_server api server q l = []"
  by (simp add: fetch_from_server_def except_pass_snd)

lemma biorxiv_search_eq:
  "biorxiv_search api q l =
     Inr (slice_to l
            (if int (length (fetch_from_server api ''biorxiv'' q l)) < l
             then fetch_from_server api ''biorxiv'' q l
                  @ fetch_from_server api ''medrxiv'' q (l - int (length (fetch_from_server api ''biorxiv'' q l)))
             else fetch_from_server api ''biorxiv'' q l))"
  by (simp add: biorxiv_search_def bind_def Let_def except_pass_snd)

lemma biorxiv_search_returns:
  "\<exists>ps. biorxiv_search api q l = Inr ps \<and>
        (\<forall>p \<in> set ps. \<exists>server items i. (server = ''biorxiv'' \<or> server = ''medrxiv'') \<and>
             details api server = Inr items \<and> i \<in> set items \<and>
             biorxiv_parse_paper (reformat_date api) i server = Inr p)"
proof -
  define b where "b = fetch_from_server api ''biorxiv'' q l"
  define m where "m = fetch_from_server api ''medrxiv'' q (l - int (length b))"
  define all where "all = (if int (length b) < l then b @ m else b)"
  have eq: "biorxiv_search api q l = Inr (slice_to l all)"
    by (simp only: biorxiv_search_eq all_def m_def b_def)
  have "\<exists>server items i. (server = ''biorxiv'' \<or> server = ''medrxiv'') \<and>
             details api server = Inr items \<and> i \<in> set items \<and>
             biorxiv_parse_paper (reformat_date api) i server = Inr p"
    if "p \<in> set (slice_to l all)" for p
  proof -
    have "p \<in> set all" using set_slice_to [of l all] that by (rule subsetD)
    then have "p \<in> set b \<or> p \<in> set m" by (cases "int (length b) < l") (simp_all add: all_def)
    then show ?thesis
    proof
      assume "p \<in> set b"
      then obtain items i where "details api ''biorxiv'' = Inr items" "i \<in> set items"
        "biorxiv_parse_paper (reformat_date api) i ''biorxiv'' = Inr p"
        unfolding b_def using fetch_from_server_papers by blast
      then show ?thesis by blast
    next
      assume "p \<in> set m"
      then obtain items i where "details api ''medrxiv'' = Inr items" "i \<in> set items"
        "biorxiv_parse_paper (reformat_date api) i ''medrxiv'' = Inr p"
        unfolding m_def using fetch_from_server_papers by blast
      then show ?thesis by blast
    qed
  qed
  with eq show ?thesis by (intro exI [of _ "slice_to l all"] conjI ballI)
qed

lemma biorxiv_search_within_limit:
  "0 \<le> l \<Longrightarrow> int (length (returned (biorxiv_search api q l))) \<le> l"
  by (simp only: biorxiv_search_eq returned_def sum.case length_slice_to)


lemma arxiv_search_failure:
  "api (if q \<noteq> [] then ''all:'' @ q else ''all'') l = Inl e \<Longrightarrow> arxiv_search api q l = Inr []"
  by (simp add: arxiv_search_def except_pass_snd)

lemma s2_search_failure: "api q l = Inl e \<Longrightarrow> s2_search api q l = Inr []"
  by (simp add: s2_search_def except_pass_snd)

lemma pubmed_search_failure: "esearch api q l = Inl e \<Longrightarrow> pubmed_search api q l = Inr []"
  by (simp add: pubmed_search_def except_pass_snd)

lemma biorxiv_search_failure:
  assumes "details api ''biorxiv'' = Inl e" and "details api ''medrxiv'' = Inl e'"
  shows "biorxiv_search api q l = Inr []"
proof -
  have "fetch_from_server api ''biorxiv'' q l = []"
    using assms(1) by (rule fetch_from_server_failure)
  moreover have "fetch_from_server api ''medrxiv'' q n = []" for n
    using assms(2) by (rule fetch_from_server_failure)
  ultimately show ?thesis by (simp add: biorxiv_search_eq slice_to_def)
qed

lemma fetch_from_server_eq:
  "fetch_from_server api server q l = server_papers api server q l"
  by (cases "details api server")
     (simp_all add: fetch_from_server_def server_papers_def except_pass_snd server_loop_collected)

text \<open>Each adapter's \<open>search\<close> returns the list the design describes, and never raises.\<close>

lemma search_expected: "search cls net q l = Inr (expected_search cls net q l)"
proof (cases cls)
  case ArXivSource
  then show ?thesis
    by (simp add: search_def expected_search_def arxiv_search_def except_pass_snd
          parse_loop_collected split: sum.splits)
next
  case SemanticScholarSource
  then show ?thesis
    by (simp add: search_def expected_search_def s2_search_def except_pass_snd
          parse_loop_collected split: sum.splits)
next
  case PubMedSource
  then show ?thesis
    by (simp add: search_def expected_search_def pubmed_search_def except_pass_snd
          pubmed_loop_collected split: sum.splits)
next
  case BioRxivSource
  then show ?thesis
    by (simp add: search_def expected_search_def biorxiv_search_eq fetch_from_server_eq Let_def)
qed

lemma search_total:
  "(\<exists>ps. search cls net q l = Inr ps \<and> set ps \<subseteq> upstream_parses cls net q l) \<and>
   (total_failure cls net q l \<longrightarrow> search cls net q l = Inr [])"
proof (cases cls)
  case ArXivSource
  obtain ps where "arxiv_search (arxiv_up net) q l = Inr ps"
    and "\<forall>p \<in> set ps. \<exists>entries e. arxiv_up net (if q \<noteq> [] then ''all:'' @ q else ''all'') l = Inr entries \<and>
             e \<in> set entries \<and> arxiv_parse_entry e = Inr p"
    using arxiv_search_returns [of "arxiv_up net" q l] by blast
  then have "\<exists>ps. search cls net q l = Inr ps \<and> set ps \<subseteq> upstream_parses cls net q l"
    by (auto simp: ArXivSource search_def upstream_parses_def)
  moreover have "total_failure cls net q l \<longrightarrow> search cls net q l = Inr []"
    by (auto simp: ArXivSource search_def total_failure_def arxiv_search_failure)
  ultimately show ?thesis by blast
next
  case SemanticScholarSource
  obtain ps where "s2_search (s2_search_up net) q l = Inr ps"
    and "\<forall>p \<in> set ps. \<exists>resp items i. s2_search_up net q l = Inr resp \<and> json_data resp = Inr items \<and>
             i \<in> set items \<and> s2_parse_paper i = Inr p"
    using s2_search_returns [of "s2_search_up net" q l] by blast
  then have "\<exists>ps. search cls net q l = Inr ps \<and> set ps \<subseteq> upstream_parses cls net q l"
    by (auto simp: SemanticScholarSource search_def upstream_parses_def)
  moreover have "total_failure cls net q l \<longrightarrow> search cls net q l = Inr []"
    by (auto simp: SemanticScholarSource search_def total_failure_def s2_search_failure)
  ultimately show ?thesis by blast
next
  case PubMedSource
  obtain ps where "pubmed_search (pubmed_up net) q l = Inr ps"
    and "\<forall>p \<in> set ps. \<exists>idlist result pmid doc abstract_s.
             esearch (pubmed_up net) q l = Inr idlist \<and> esummary (pubmed_up net) idlist = Inr result \<and>
             pmid \<in> set idlist \<and> result pmid = Some doc \<and>
             pubmed_parse_paper pmid doc abstract_s = Inr p"
    using pubmed_search_returns [of "pubmed_up net" q l] by blast
  then have "\<exists>ps. search cls net q l = Inr ps \<and> set ps \<subseteq> upstream_parses cls net q l"
    by (auto simp: PubMedSource search_def upstream_parses_def)
  moreover have "total_failure cls net q l \<longrightarrow> search cls net q l = Inr []"
    by (auto simp: PubMedSource search_def total_failure_def pubmed_search_failure)
  ultimately show ?thesis by blast
next
  case BioRxivSource
  obtain ps where r: "biorxiv_search (biorxiv_up net) q l = Inr ps"
    and u: "\<forall>p \<in> set ps. \<exists>server items i. (server = ''biorxiv'' \<or> server = ''medrxiv'') \<and>
             details (biorxiv_up net) server = Inr items \<and> i \<in> set items \<and>
             biorxiv_parse_paper (reformat_date (biorxiv_up net)) i server = Inr p"
    using biorxiv_search_returns [of "biorxiv_up net" q l] by blast
  have "p \<in> upstream_parses cls net q l" if "p \<in> set ps" for p
    using u that unfolding BioRxivSource upstream_parses_def by simp blast
  with r have "\<exists>ps. search cls net q l = Inr ps \<and> set ps \<subseteq> upstream_parses cls net q l"
    by (auto simp: BioRxivSource search_def)
  moreover have "total_failure cls net q l \<longrightarrow> search cls net q l = Inr []"
    by (auto simp: BioRxivSource search_def total_failure_def biorxiv_search_failure)
  ultimately show ?thesis by blast
qed


text \<open>
  C6. For each of the four adapters, \<open>search\<close> returns a list and never an exception,
  whatever the upstream does: every exception of a request, of a status check, of the
  decoding of a body or of the parsing of an item is caught inside the adapter. The list
  is exactly the papers parsed from the delivered items before the first item that
  fails (\<open>expected_search\<close>), each of them the successful parse of a delivered item, and
  it is empty when the first request fails altogether.
\<close>

theorem search_never_raises:
  "search cls net q l = Inr (expected_search cls net q l) \<and>
   set (expected_search cls net q l) \<subseteq> upstream_parses cls net q l \<and>
   (total_failure cls net q l \<longrightarrow> search cls net q l = Inr [])"
proof -
  obtain ps where ps: "search cls net q l = Inr ps" "set ps \<subseteq> upstream_parses cls net q l"
    and tf: "total_failure cls net q l \<longrightarrow> search cls net q l = Inr []"
    using search_total [of cls net q l] by blast
  from ps(1) have "ps = expected_search cls net q l" by (simp add: search_expected)
  with ps tf show ?thesis by simp
qed

lemma bad_entry_raises: "arxiv_parse_entry bad_entry = Inl AttributeError"
  by code_simp

lemma good_entry_parses: "arxiv_parse_entry good_entry = Inr good_paper"
  by code_simp

lemma demo_expected:
  "expected_search ArXivSource demo_net ''broken'' 5 = [good_paper] \<and>
   expected_search SemanticScholarSource demo_net ''ion'' 5 = [s2_paper] \<and>
   expected_search PubMedSource demo_net ''flu'' 5 = [pubmed_paper] \<and>
   expected_search BioRxivSource demo_net ''flu'' 5 = [flu_paper]"
  by code_simp

theorem search_never_raises_witness:
  "search ArXivSource demo_net ''broken'' 5 = Inr [good_paper] \<and>
   good_paper \<in> upstream_parses ArXivSource demo_net ''broken'' 5 \<and>
   arxiv_parse_entry bad_entry = Inl AttributeError \<and>
   search SemanticScholarSource demo_net ''ion'' 5 = Inr [s2_paper] \<and>
   search PubMedSource demo_net ''flu'' 5 = Inr [pubmed_paper] \<and>
   search BioRxivSource demo_net ''flu'' 5 = Inr [flu_paper] \<and>
   total_failure BioRxivSource down_net ''flu'' 5 \<and>
   search BioRxivSource down_net ''flu'' 5 = Inr []"
proof -
  have t: "total_failure BioRxivSource down_net ''flu'' 5"
    by (simp add: total_failure_def down_net_def)
  from search_never_raises [of ArXivSource demo_net "''broken''" 5] demo_expected
  have a: "search ArXivSource demo_net ''broken'' 5 = Inr [good_paper]"
    "good_paper \<in> upstream_parses ArXivSource demo_net ''broken'' 5" by auto
  from search_never_raises [of SemanticScholarSource demo_net "''ion''" 5] demo_expected
  have s: "search SemanticScholarSource demo_net ''ion'' 5 = Inr [s2_paper]" by simp
  from search_never_raises [of PubMedSource demo_net "''flu''" 5] demo_expected
  have p: "search PubMedSource demo_net ''flu'' 5 = Inr [pubmed_paper]" by simp
  from search_never_raises [of BioRxivSource demo_net "''flu''" 5] demo_expected
  have b: "search BioRxivSource demo_net ''flu'' 5 = Inr [flu_paper]" by simp
  from search_never_raises [of BioRxivSource down_net "''flu''" 5] t
  have d: "search BioRxivSource down_net ''flu'' 5 = Inr []" by blast
  from a s p b d t bad_entry_raises show ?thesis by simp
qed








lemma demo_arxiv_search:
  "search ArXivSource demo_net ''ion'' 1 = Inr [good_paper, good_paper2]"
  by code_simp




text \<open>
  C3 at a failing input. The arXiv adapter passes \<open>limit\<close> to the API as \<open>max_results\<close>
  and returns every entry of the feed it gets: for a feed of two entries and the limit 1
  it returns two papers. The Semantic Scholar and PubMed adapters pass the limit on in
  the same way; only the bioRxiv adapter slices its result (\<open>biorxiv_search_within_limit\<close>).
\<close>

theorem arxiv_search_exceeds_limit:
  "search ArXivSource demo_net ''ion'' 1 = Inr [good_paper, good_paper2] \<and>
   length (returned (search ArXivSource demo_net ''ion'' 1)) = 2"
  by (simp add: demo_arxiv_search returned_def)

lemma lower_char_idem: "lower_char (lower_char c) = lower_char c"
proof -
  have "of_char c < (256 :: nat)" by simp
  then show ?thesis by (auto simp: lower_char_def Let_def)
qed

lemma split_acc_chars: "w \<in> set (split_acc cur cs) \<Longrightarrow> set w \<subseteq> set cur \<union> set cs"
  by (induction cur cs rule: split_acc.induct) (auto split: if_splits)

lemma split_chars: "w \<in> set (split s) \<Longrightarrow> set w \<subseteq> set s"
  using split_acc_chars [of w "[]" s] by (simp add: split_def)

lemma extract_keywords_set:
  "set (extract_keywords txt)
     = {k \<in> filter isalnum ` set (split (lower txt)). 3 < length k \<and> k \<notin> set common_words}"
  by (auto simp: extract_keywords_def py_set_def Let_def)

lemma extract_keywords_member:
  assumes k: "k \<in> set (extract_keywords txt)"
  shows "lower k = k \<and> (\<forall>c \<in> set k. isalnum c) \<and> 3 < length k \<and> k \<notin> set common_words"
proof -
  from k obtain w where w: "w \<in> set (split (lower txt))" and kw: "k = filter isalnum w"
    and len: "3 < length k" and nc: "k \<notin> set common_words"
    by (auto simp: extract_keywords_set)
  have "lower_char c = c" if c: "c \<in> set k" for c
  proof -
    from c kw have "c \<in> set w" by auto
    with split_chars [OF w] have "c \<in> set (lower txt)" by blast
    then show ?thesis by (auto simp: lower_def lower_char_idem)
  qed
  then have "lower k = k" unfolding lower_def by (simp add: map_idI)
  moreover have "\<forall>c \<in> set k. isalnum c" using kw by simp
  ultimately show ?thesis using len nc by blast
qed

text \<open>The keyword list each parser stores on the Paper it builds.\<close>

lemma arxiv_parse_entry_keywords:
  "arxiv_parse_entry e = Inr p \<Longrightarrow>
   keywords' p = take 20 (arxiv_categories (e_categories e)
                            @ filter (\<lambda>k. k \<notin> set (arxiv_categories (e_categories e)))
                                (extract_keywords (title p @ '' '' @ abstract p)))"
  by (auto simp: arxiv_parse_entry_def bind_def Let_def split: sum.splits)

lemma s2_parse_paper_keywords:
  "s2_parse_paper i = Inr p \<Longrightarrow>
   keywords' p = take 20 (extract_keywords (title p @ '' '' @ abstract p))"
  by (auto simp: s2_parse_paper_def bind_def Let_def split: sum.splits)

lemma pubmed_parse_paper_keywords:
  "pubmed_parse_paper pmid doc a = Inr p \<Longrightarrow>
   keywords' p = take 20 (extract_keywords (title p @ '' '' @ abstract p))"
  by (auto simp: pubmed_parse_paper_def bind_def Let_def split: sum.splits)

lemma biorxiv_parse_paper_keywords:
  "biorxiv_parse_paper reformat i server = Inr p \<Longrightarrow>
   keywords' p = take 20 (extract_keywords (title p @ '' '' @ abstract p))"
  by (auto simp: biorxiv_parse_paper_def bind_def Let_def split: sum.splits)

text \<open>
  C9, as amended. \<open>_extract_keywords\<close> returns, each once, exactly the tokens that are the
  alphanumeric characters of a word of the lowercased text, are longer than 3 characters
  and are no common word; every such token is unchanged by \<open>lower\<close> and consists of
  alphanumeric characters. The helper sets no bound on their number; each adapter's
  parser stores the first 20 of them on the Paper it builds (the arXiv parser the first
  20 of the category terms followed by them).
\<close>

theorem extract_keywords_tokens:
  "set (extract_keywords txt)
     = {k \<in> filter isalnum ` set (split (lower txt)). 3 < length k \<and> k \<notin> set common_words} \<and>
   (\<forall>k \<in> set (extract_keywords txt).
      lower k = k \<and> (\<forall>c \<in> set k. isalnum c) \<and> 3 < length k \<and> k \<notin> set common_words) \<and>
   distinct (extract_keywords txt) \<and>
   (arxiv_parse_entry e = Inr p1 \<longrightarrow>
      keywords' p1 = take 20 (arxiv_categories (e_categories e)
                               @ filter (\<lambda>k. k \<notin> set (arxiv_categories (e_categories e)))
                                   (extract_keywords (title p1 @ '' '' @ abstract p1))) \<and>
      length (keywords' p1) \<le> 20) \<and>
   (s2_parse_paper i = Inr p2 \<longrightarrow>
      keywords' p2 = take 20 (extract_keywords (title p2 @ '' '' @ abstract p2)) \<and>
      length (keywords' p2) \<le> 20) \<and>
   (pubmed_parse_paper pmid doc a = Inr p3 \<longrightarrow>
      keywords' p3 = take 20 (extract_keywords (title p3 @ '' '' @ abstract p3)) \<and>
      length (keywords' p3) \<le> 20) \<and>
   (biorxiv_parse_paper reformat b server = Inr p4 \<longrightarrow>
      keywords' p4 = take 20 (extract_keywords (title p4 @ '' '' @ abstract p4)) \<and>
      length (keywords' p4) \<le> 20)"
proof -
  have "set (extract_keywords txt)
     = {k \<in> filter isalnum ` set (split (lower txt)). 3 < length k \<and> k \<notin> set common_words}"
    by (rule extract_keywords_set)
  moreover have "\<forall>k \<in> set (extract_keywords txt).
      lower k = k \<and> (\<forall>c \<in> set k. isalnum c) \<and> 3 < length k \<and> k \<notin> set common_words"
    using extract_keywords_member by blast
  moreover have "distinct (extract_keywords txt)"
    by (simp add: extract_keywords_def py_set_def Let_def)
  moreover have "arxiv_parse_entry e = Inr p1 \<longrightarrow>
      keywords' p1 = take 20 (arxiv_categories (e_categories e)
                               @ filter (\<lambda>k. k \<notin> set (arxiv_categories (e_categories e)))
                                   (extract_keywords (title p1 @ '' '' @ abstract p1))) \<and>
      length (keywords' p1) \<le> 20"
    using arxiv_parse_entry_keywords arxiv_parse_entry_fields by blast
  moreover have "s2_parse_paper i = Inr p2 \<longrightarrow>
      keywords' p2 = take 20 (extract_keywords (title p2 @ '' '' @ abstract p2)) \<and>
      length (keywords' p2) \<le> 20"
    using s2_parse_paper_keywords s2_parse_paper_fields by blast
  moreover have "pubmed_parse_paper pmid doc a = Inr p3 \<longrightarrow>
      keywords' p3 = take 20 (extract_keywords (title p3 @ '' '' @ abstract p3)) \<and>
      length (keywords' p3) \<le> 20"
    using pubmed_parse_paper_keywords pubmed_parse_paper_fields by blast
  moreover have "biorxiv_parse_paper reformat b server = Inr p4 \<longrightarrow>
      keywords' p4 = take 20 (extract_keywords (title p4 @ '' '' @ abstract p4)) \<and>
      length (keywords' p4) \<le> 20"
    using biorxiv_parse_paper_keywords biorxiv_parse_paper_fields by blast
  ultimately show ?thesis by (intro conjI)
qed

lemma demo_keywords:
  "extract_keywords ''The Quick-Brown fox jumps'' = [''quickbrown'', ''jumps'']"
  by code_simp

lemma demo_latin1_keywords:
  "extract_keywords [CHR 0xC9, CHR ''t'', CHR ''u'', CHR ''d'', CHR ''e'', CHR 0xA0,
                     CHR ''d'', CHR ''e'', CHR ''e'', CHR ''p'']
     = [[CHR 0xE9, CHR ''t'', CHR ''u'', CHR ''d'', CHR ''e''], ''deep'']"
  by code_simp

lemma demo_item_parses: "s2_parse_paper demo_item = Inr s2_paper"
  by code_simp

lemma demo_doc_parses: "pubmed_parse_paper ''77'' demo_doc ''Cases rise'' = Inr pubmed_paper"
  by code_simp

lemma flu_item_parses: "biorxiv_parse_paper Some flu_item ''medrxiv'' = Inr flu_paper"
  by code_simp

theorem extract_keywords_tokens_witness:
  "extract_keywords ''The Quick-Brown fox jumps'' = [''quickbrown'', ''jumps''] \<and>
   lower ''quickbrown'' = ''quickbrown'' \<and>
   3 < length ''quickbrown'' \<and> ''quickbrown'' \<notin> set common_words \<and>
   arxiv_parse_entry good_entry = Inr good_paper \<and> length (keywords' good_paper) \<le> 20 \<and>
   s2_parse_paper demo_item = Inr s2_paper \<and> length (keywords' s2_paper) \<le> 20 \<and>
   pubmed_parse_paper ''77'' demo_doc ''Cases rise'' = Inr pubmed_paper \<and>
   length (keywords' pubmed_paper) \<le> 20 \<and>
   biorxiv_parse_paper Some flu_item ''medrxiv'' = Inr flu_paper \<and>
   length (keywords' flu_paper) \<le> 20"
proof -
  have "''quickbrown'' \<in> set (extract_keywords ''The Quick-Brown fox jumps'')"
    by (simp add: demo_keywords)
  with extract_keywords_tokens [of "''The Quick-Brown fox jumps''" good_entry good_paper
      demo_item s2_paper "''77''" demo_doc "''Cases rise''" pubmed_paper Some flu_item
      "''medrxiv''" flu_paper]
    demo_keywords good_entry_parses demo_item_parses demo_doc_parses flu_item_parses
  show ?thesis by auto
qed

text \<open>
  The helper itself returns all 21 keywords of a text of 21 different words.
\<close>

theorem extract_keywords_not_capped:
  "length (extract_keywords long_text) = 21 \<and> \<not> length (extract_keywords long_text) \<le> 20"
  by code_simp

end
